theory Spec2Isabelle
  imports Complex_Main "HOL-Library.Word"
begin

section \<open>Conventions\<close>

text \<open>
  The services of the repository are TypeScript classes with private mutable maps.
  Each method is embedded as a function that takes the part of the object state it
  reads and returns the part it writes. JavaScript numbers are modelled as \<open>real\<close>
  (or \<open>int\<close> for millisecond clocks and counters), \<open>Date.now()\<close> is a parameter
  \<open>now\<close>, \<open>Math.random()\<close> is a parameter stream of draws, and a rejected promise or
  a thrown exception is the \<open>Inl\<close> branch of a sum.
\<close>

section \<open>BigQueryService: the query cache\<close>

text \<open>
  \<^verbatim>\<open>private queryCache = new Map<string, { result: any; timestamp: number }>();\<close>
  \<^verbatim>\<open>private readonly CACHE_TTL = 300000;\<close>
  The value \<open>null\<close> returned on a miss is \<open>None\<close>.
\<close>

record 'v cache_entry =
  result :: 'v
  timestamp :: int

type_synonym ('k, 'v) query_cache = "'k \<rightharpoonup> 'v cache_entry"

definition CACHE_TTL :: int where
  "CACHE_TTL = 300000"

definition getCachedResult :: "('k, 'v) query_cache \<Rightarrow> int \<Rightarrow> 'k \<Rightarrow> 'v option" where
  "getCachedResult queryCache now key =
     (case queryCache key of
        None \<Rightarrow> None
      | Some cached \<Rightarrow>
          if now - timestamp cached < CACHE_TTL then Some (result cached) else None)"

definition setCachedResult :: "('k, 'v) query_cache \<Rightarrow> int \<Rightarrow> 'k \<Rightarrow> 'v \<Rightarrow> ('k, 'v) query_cache" where
  "setCachedResult queryCache now key res =
     queryCache(key \<mapsto> \<lparr>result = res, timestamp = now\<rparr>)"

definition clearCache :: "('k, 'v) query_cache \<Rightarrow> ('k, 'v) query_cache" where
  "clearCache queryCache = Map.empty"

section \<open>RealTimeService: subscriptions, polling and alerts\<close>

text \<open>
  \<^verbatim>\<open>interface DataUpdate { timestamp; indicator; region; value; change; changePercent;
  source; reliability: 'high' | 'medium' | 'low' }\<close>
  The timestamp \<^verbatim>\<open>new Date().toISOString()\<close> is kept as the clock reading in milliseconds.
  The field \<^verbatim>\<open>value\<close> is written \<open>val\<close>, \<^verbatim>\<open>timestamp\<close> is written \<open>stamp\<close>.
\<close>

datatype reliability = High | Medium | Low

record DataUpdate =
  stamp :: int
  indicator :: string
  region :: string
  val :: real
  change :: real
  changePercent :: real
  source :: string
  reliability :: reliability

text \<open>
  \<^verbatim>\<open>interface AlertConfig { threshold: number; type: 'absolute' | 'percentage';
  direction: 'increase' | 'decrease' | 'both' }\<close>
\<close>

datatype alert_type = Absolute | Percentage

datatype alert_direction = Increase | Decrease | Both

record AlertConfig =
  threshold :: real
  atype :: alert_type
  direction :: alert_direction

text \<open>
  A callback is a function object; \<^verbatim>\<open>indexOf\<close> compares callbacks by identity, so a
  callback is modelled by its identity, a natural number. The state holds the four
  private maps of the service that subscriptions, polling and alerts use, and the part
  of the environment they act on: the intervals of \<^verbatim>\<open>window.setInterval\<close> that are
  active (each with the indicator and region its closure captured), the next handle
  \<^verbatim>\<open>setInterval\<close> will return (handles are positive), the fetches that have been
  started and have not completed yet, and two logs: the callback invocations and the
  calls of \<^verbatim>\<open>triggerAlert\<close>.
\<close>

type_synonym callback = nat

record RealTimeState =
  subscribers :: "string \<rightharpoonup> callback list"
  pollingIntervals :: "string \<rightharpoonup> nat"
  alerts :: "string \<rightharpoonup> AlertConfig"
  lastValues :: "string \<rightharpoonup> real"
  timers :: "nat \<rightharpoonup> string \<times> string"
  nextTimerId :: nat
  pending :: "(string \<times> string) list"
  delivered :: "(callback \<times> DataUpdate) list"
  alertLog :: "(DataUpdate \<times> AlertConfig) list"

definition initialState :: RealTimeState where
  "initialState =
     \<lparr>subscribers = Map.empty, pollingIntervals = Map.empty, alerts = Map.empty,
      lastValues = Map.empty, timers = Map.empty, nextTimerId = 1, pending = [],
      delivered = [], alertLog = []\<rparr>"

text \<open>\<^verbatim>\<open>const key = `${indicator}-${region}`;\<close>\<close>

definition topicKey :: "string \<Rightarrow> string \<Rightarrow> string" where
  "topicKey ind reg = ind @ ''-'' @ reg"

text \<open>
  \<^verbatim>\<open>stopPolling(key)\<close>: \<^verbatim>\<open>if (intervalId) { clearInterval(intervalId);
  this.pollingIntervals.delete(key); }\<close>. The test is on the truthiness of the handle:
  a handle \<open>0\<close> would be left alone.
\<close>

definition stopPolling :: "RealTimeState \<Rightarrow> string \<Rightarrow> RealTimeState" where
  "stopPolling st key =
     (case pollingIntervals st key of
        None \<Rightarrow> st
      | Some intervalId \<Rightarrow>
          if intervalId \<noteq> 0
          then st\<lparr>timers := (timers st)(intervalId := None),
                  pollingIntervals := (pollingIntervals st)(key := None)\<rparr>
          else st)"

text \<open>
  \<^verbatim>\<open>startPolling(indicator, region)\<close>: stop the polling of the key, register the
  interval, store its handle, and start the initial fetch. The fetch is asynchronous
  (it waits 100 ms first), so it is queued in \<open>pending\<close> and completes in a later step.
\<close>

definition startPolling :: "RealTimeState \<Rightarrow> string \<Rightarrow> string \<Rightarrow> RealTimeState" where
  "startPolling st ind reg =
     (let key = topicKey ind reg;
          st1 = stopPolling st key;
          intervalId = nextTimerId st1
      in st1\<lparr>timers := (timers st1)(intervalId \<mapsto> (ind, reg)),
              nextTimerId := Suc intervalId,
              pollingIntervals := (pollingIntervals st1)(key \<mapsto> intervalId),
              pending := pending st1 @ [(ind, reg)]\<rparr>)"

text \<open>
  \<^verbatim>\<open>subscribe(indicator, region, callback)\<close>. The function it returns is the closure
  \<open>unsubscribe key callback\<close> below.
\<close>

definition subscribe :: "RealTimeState \<Rightarrow> string \<Rightarrow> string \<Rightarrow> callback \<Rightarrow> RealTimeState" where
  "subscribe st ind reg cb =
     (let key = topicKey ind reg;
          st1 = (if subscribers st key = None
                 then startPolling (st\<lparr>subscribers := (subscribers st)(key \<mapsto> [])\<rparr>) ind reg
                 else st)
      in case subscribers st1 key of
           None \<Rightarrow> st1
         | Some callbacks \<Rightarrow> st1\<lparr>subscribers := (subscribers st1)(key \<mapsto> callbacks @ [cb])\<rparr>)"

text \<open>
  The closure returned by \<open>subscribe\<close>. \<^verbatim>\<open>callbacks.indexOf(callback)\<close> finds the
  first occurrence and \<^verbatim>\<open>splice(index, 1)\<close> removes it: \<open>remove1\<close>.
\<close>

definition unsubscribe :: "RealTimeState \<Rightarrow> string \<Rightarrow> callback \<Rightarrow> RealTimeState" where
  "unsubscribe st key cb =
     (case subscribers st key of
        None \<Rightarrow> st
      | Some callbacks \<Rightarrow>
          if cb \<in> set callbacks
          then (let callbacks' = remove1 cb callbacks
                in if callbacks' = []
                   then (let st1 = stopPolling st key
                         in st1\<lparr>subscribers := (subscribers st1)(key := None)\<rparr>)
                   else st\<lparr>subscribers := (subscribers st)(key \<mapsto> callbacks')\<rparr>)
          else st)"



text \<open>
  \<^verbatim>\<open>checkAlerts(update)\<close>; the result says whether \<^verbatim>\<open>triggerAlert\<close> is called.
\<close>

definition checkAlerts :: "(string \<rightharpoonup> AlertConfig) \<Rightarrow> DataUpdate \<Rightarrow> bool" where
  "checkAlerts alertMap update =
     (let key = topicKey (indicator update) (region update)
      in case alertMap key of
           None \<Rightarrow> False
         | Some alertConfig \<Rightarrow>
             (let triggered =
                    (if atype alertConfig = Absolute
                     then \<bar>change update\<bar> \<ge> threshold alertConfig
                     else \<bar>changePercent update\<bar> \<ge> threshold alertConfig)
              in if triggered
                 then (let dir = (if change update > 0 then Increase else Decrease)
                       in direction alertConfig = Both \<or> direction alertConfig = dir)
                 else False))"


text \<open>The tables of the service, with their defaults for an unknown indicator.\<close>

definition rtBaseValue :: "string \<Rightarrow> real" where
  "rtBaseValue ind =
     (if ind = ''co2'' then 415 else if ind = ''avg_temperature'' then 14.8
      else if ind = ''gdp'' then 52000 else if ind = ''renewable_adoption'' then 28
      else 100)"

definition getVolatility :: "string \<Rightarrow> real" where
  "getVolatility ind =
     (if ind = ''co2'' then 0.002 else if ind = ''avg_temperature'' then 0.01
      else if ind = ''gdp'' then 0.005 else if ind = ''renewable_adoption'' then 0.003
      else 0.005)"

definition getTrend :: "string \<Rightarrow> real" where
  "getTrend ind =
     (if ind = ''co2'' then 0.5 else if ind = ''avg_temperature'' then 0.3
      else if ind = ''gdp'' then 0.2 else if ind = ''renewable_adoption'' then 1.0
      else 0)"

definition getDataSource :: "string \<Rightarrow> string" where
  "getDataSource ind =
     (if ind = ''co2'' then ''NOAA Global Monitoring Laboratory''
      else if ind = ''avg_temperature'' then ''NASA GISS Temperature Data''
      else if ind = ''gdp'' then ''World Bank Global Economic Data''
      else if ind = ''renewable_adoption'' then ''International Energy Agency''
      else ''Real-time Data Feed'')"

text \<open>
  \<^verbatim>\<open>Number(x.toFixed(d))\<close>: the decimal with \<open>d\<close> digits nearest to \<open>x\<close>, the larger
  one on a tie.
\<close>

definition toFixed :: "real \<Rightarrow> nat \<Rightarrow> real" where
  "toFixed x d = of_int \<lfloor>x * 10 ^ d + 1 / 2\<rfloor> / 10 ^ d"

text \<open>
  \<^verbatim>\<open>fetchLatestData(indicator, region)\<close>: no backend is called; the value is drawn
  around the last value of the key. \<open>rnd\<close> is the draw of \<^verbatim>\<open>Math.random()\<close>.
  \<^verbatim>\<open>this.lastValues.get(key) || this.getBaseValue(indicator)\<close> takes the base value
  when the last value is missing or falsy (zero).
\<close>

definition fetchLatestData ::
  "(string \<rightharpoonup> real) \<Rightarrow> string \<Rightarrow> string \<Rightarrow> int \<Rightarrow> real \<Rightarrow> DataUpdate \<times> (string \<rightharpoonup> real)" where
  "fetchLatestData lastVals ind reg now rnd =
     (let key = topicKey ind reg;
          lastValue = (case lastVals key of
                         None \<Rightarrow> rtBaseValue ind
                       | Some v \<Rightarrow> if v = 0 then rtBaseValue ind else v);
          volatility = getVolatility ind;
          trend = getTrend ind;
          randomChange = (rnd - 0.5) * volatility;
          trendChange = trend * 0.001;
          newValue = lastValue + lastValue * (trendChange + randomChange);
          chg = newValue - lastValue;
          chgPercent = (chg / lastValue) * 100
      in (\<lparr>stamp = now, indicator = ind, region = reg,
           val = toFixed newValue 2, change = toFixed chg 3,
           changePercent = toFixed chgPercent 2,
           source = getDataSource ind, reliability = High\<rparr>,
          lastVals(key \<mapsto> newValue)))"










text \<open>
  The alert rule in the words of the specification, for comparison with
  \<open>checkAlerts\<close>: the threshold test, and a direction test that passes for \<open>both\<close>
  and otherwise only if the sign of \<open>change\<close> matches the direction.
\<close>

definition specAlertFires :: "AlertConfig \<Rightarrow> DataUpdate \<Rightarrow> bool" where
  "specAlertFires config update \<longleftrightarrow>
     (case atype config of
        Absolute \<Rightarrow> \<bar>change update\<bar> \<ge> threshold config
      | Percentage \<Rightarrow> \<bar>changePercent update\<bar> \<ge> threshold config)
     \<and> (case direction config of
          Both \<Rightarrow> True
        | Increase \<Rightarrow> sgn (change update) = 1
        | Decrease \<Rightarrow> sgn (change update) = - 1)"

section \<open>ErrorService: errors and the retry mechanism\<close>

text \<open>
  \<^verbatim>\<open>interface AppError extends Error { code; severity; category; context; recoverable;
  userMessage; technicalDetails }\<close>. Of the context, the component and the action are
  kept (the session id, time stamp, user agent and URL play no part here);
  \<^verbatim>\<open>technicalDetails\<close> equals the message and \<^verbatim>\<open>userMessage\<close> is a function of category
  and severity, so neither is stored. A thrown value is an \<open>AppError\<close> or a plain
  \<^verbatim>\<open>Error\<close> with its message.
\<close>

datatype ErrorSeverity = LOW | MEDIUM | HIGH | CRITICAL

datatype ErrorCategory = NETWORK | API | VALIDATION | UI | PERFORMANCE | SECURITY

record AppError =
  message :: string
  code :: string
  severity :: ErrorSeverity
  category :: ErrorCategory
  component :: string
  action :: string
  recoverable :: bool

datatype thrown = PlainError string | AppErr AppError

fun errorMessage :: "thrown \<Rightarrow> string" where
  "errorMessage (PlainError m) = m"
| "errorMessage (AppErr e) = message e"

text \<open>
  \<^verbatim>\<open>createError(message, code, severity, category, context, recoverable = true)\<close>;
  the context given overrides the defaults \<^verbatim>\<open>'unknown'\<close> of component and action.
\<close>

definition createError ::
  "string \<Rightarrow> string \<Rightarrow> ErrorSeverity \<Rightarrow> ErrorCategory \<Rightarrow> string option \<Rightarrow> string option \<Rightarrow> bool
   \<Rightarrow> AppError" where
  "createError msg cd sev cat componentArg actionArg recov =
     \<lparr>message = msg, code = cd, severity = sev, category = cat,
      component = (case componentArg of None \<Rightarrow> ''unknown'' | Some c \<Rightarrow> c),
      action = (case actionArg of None \<Rightarrow> ''unknown'' | Some a \<Rightarrow> a),
      recoverable = recov\<rparr>"

text \<open>
  \<^verbatim>\<open>interface ErrorConfig { ...; maxRetries: number; retryDelay: number }\<close>, and the
  configuration of the singleton \<^verbatim>\<open>errorService\<close>.
\<close>

record ErrorConfig =
  enableLogging :: bool
  maxRetries :: int
  retryDelay :: int

definition errorServiceConfig :: ErrorConfig where
  "errorServiceConfig = \<lparr>enableLogging = True, maxRetries = 3, retryDelay = 1000\<rparr>"

text \<open>How a template literal prints an integer.\<close>

definition digitChar :: "nat \<Rightarrow> char" where
  "digitChar d =
     (if d = 0 then CHR ''0'' else if d = 1 then CHR ''1'' else if d = 2 then CHR ''2''
      else if d = 3 then CHR ''3'' else if d = 4 then CHR ''4'' else if d = 5 then CHR ''5''
      else if d = 6 then CHR ''6'' else if d = 7 then CHR ''7'' else if d = 8 then CHR ''8''
      else CHR ''9'')"

fun showNat :: "nat \<Rightarrow> string" where
  "showNat n = (if n < 10 then [digitChar n] else showNat (n div 10) @ [digitChar (n mod 10)])"

definition showInt :: "int \<Rightarrow> string" where
  "showInt i = (if i < 0 then ''-'' @ showNat (nat (- i)) else showNat (nat i))"

text \<open>
  \<^verbatim>\<open>const retries = maxRetries || this.config.maxRetries;\<close> (an argument \<open>0\<close> is falsy)
  and \<^verbatim>\<open>const currentRetryCount = this.retryCount.get(operationId) || 0;\<close>
\<close>

definition retryLimit :: "ErrorConfig \<Rightarrow> int option \<Rightarrow> int" where
  "retryLimit config maxRetriesArg =
     (case maxRetriesArg of
        None \<Rightarrow> maxRetries config
      | Some m \<Rightarrow> if m = 0 then maxRetries config else m)"

definition currentRetryCount :: "(string \<rightharpoonup> nat) \<Rightarrow> string \<Rightarrow> nat" where
  "currentRetryCount retryCount operationId =
     (case retryCount operationId of None \<Rightarrow> 0 | Some n \<Rightarrow> n)"

text \<open>
  The result of \<open>withRetry\<close>: what the promise settles with, the counters afterwards,
  the back-off delays waited (in milliseconds, in order) and the number of calls of the
  operation made so far.
\<close>

record 'a retry_outcome =
  settled :: "thrown + 'a"
  counters :: "string \<rightharpoonup> nat"
  delays :: "int list"
  callsMade :: nat

text \<open>
  \<^verbatim>\<open>withRetry(operation, operationId, maxRetries?)\<close>. The operation is a closure that
  may behave differently each time it is called: \<open>operation k\<close> is the outcome of its
  call number \<open>k\<close> (\<open>Inl\<close> when it throws or rejects), and \<open>calls\<close> counts the calls
  made before this invocation.
\<close>

function withRetry ::
  "ErrorConfig \<Rightarrow> (nat \<Rightarrow> thrown + 'a) \<Rightarrow> nat \<Rightarrow> string \<Rightarrow> int option \<Rightarrow> (string \<rightharpoonup> nat)
   \<Rightarrow> 'a retry_outcome" where
  "withRetry config operation calls operationId maxRetriesArg retryCount =
     (let retries = retryLimit config maxRetriesArg;
          current = currentRetryCount retryCount operationId
      in case operation calls of
           Inr res \<Rightarrow>
             \<lparr>settled = Inr res, counters = retryCount(operationId := None), delays = [],
              callsMade = Suc calls\<rparr>
         | Inl err \<Rightarrow>
             if int current < retries
             then (let delay = retryDelay config * 2 ^ current;
                       rest = withRetry config operation (Suc calls) operationId maxRetriesArg
                                (retryCount(operationId \<mapsto> current + 1))
                   in rest\<lparr>delays := delay # delays rest\<rparr>)
             else \<lparr>settled = Inl (AppErr (createError
                                  (''Operation failed after '' @ showInt retries @ '' retries: ''
                                     @ errorMessage err)
                                  ''RETRY_EXHAUSTED'' HIGH API None (Some operationId) False)),
                   counters = retryCount(operationId := None), delays = [],
                   callsMade = Suc calls\<rparr>)"
  by pat_completeness auto
termination
  by (relation "measure (\<lambda>(config, operation, calls, operationId, maxRetriesArg, retryCount).
        nat (retryLimit config maxRetriesArg - int (currentRetryCount retryCount operationId)))")
     (auto simp: currentRetryCount_def)

declare withRetry.simps [simp del]

text \<open>
  \<^verbatim>\<open>validate(data, rules)\<close>. The data validated in this repository are objects whose
  fields hold strings; a field that is missing is \<open>None\<close>. A \<^verbatim>\<open>required\<close> rule wants
  the field defined and not empty; a \<^verbatim>\<open>string\<close> rule wants a string within the length
  bounds given; a \<^verbatim>\<open>custom\<close> rule applies its validator to the field (a custom rule
  without validator passes). The rule types \<^verbatim>\<open>number\<close> and \<^verbatim>\<open>email\<close> are not used by
  the callers modelled here.
\<close>

datatype rule_type =
    Required
  | StringRule "nat option" "nat option"
  | Custom "(string option \<Rightarrow> bool) option"

record ValidationRule =
  field :: string
  rtype :: rule_type
  rmessage :: string

record ValidationResult =
  isValid :: bool
  errors :: "(string \<times> string) list"

fun ruleHolds :: "rule_type \<Rightarrow> string option \<Rightarrow> bool" where
  "ruleHolds Required v = (v \<noteq> None \<and> v \<noteq> Some [])"
| "ruleHolds (StringRule lo hi) v =
     (case v of
        None \<Rightarrow> False
      | Some s \<Rightarrow>
          (case lo of None \<Rightarrow> True | Some m \<Rightarrow> m \<le> length s)
          \<and> (case hi of None \<Rightarrow> True | Some m \<Rightarrow> length s \<le> m))"
| "ruleHolds (Custom validator) v = (case validator of None \<Rightarrow> True | Some f \<Rightarrow> f v)"

definition validate :: "(string \<rightharpoonup> string) \<Rightarrow> ValidationRule list \<Rightarrow> ValidationResult" where
  "validate dat rules =
     (let errs = map (\<lambda>rule. (field rule, rmessage rule))
                   (filter (\<lambda>rule. \<not> ruleHolds (rtype rule) (dat (field rule))) rules)
      in \<lparr>isValid = (errs = []), errors = errs\<rparr>)"

text \<open>\<^verbatim>\<open>validateClimateData(data)\<close> and its four rules.\<close>

definition climateRules :: "ValidationRule list" where
  "climateRules =
     [\<lparr>field = ''indicator'', rtype = Required, rmessage = ''Climate indicator is required''\<rparr>,
      \<lparr>field = ''indicator'',
       rtype = Custom (Some (\<lambda>v. v \<in> Some ` {''co2'', ''avg_temperature'', ''gdp'', ''renewable_adoption''})),
       rmessage = ''Invalid climate indicator''\<rparr>,
      \<lparr>field = ''region'', rtype = StringRule (Some 2) (Some 100),
       rmessage = ''Region must be a valid string''\<rparr>,
      \<lparr>field = ''timeRange'',
       rtype = Custom (Some (\<lambda>v. v \<in> Some ` {''1y'', ''5y'', ''10y''})),
       rmessage = ''Invalid time range''\<rparr>]"

definition validateClimateData :: "(string \<rightharpoonup> string) \<Rightarrow> ValidationResult" where
  "validateClimateData dat = validate dat climateRules"

text \<open>
  \<^verbatim>\<open>handleError(error)\<close> as far as the state goes: \<^verbatim>\<open>logError\<close> appends the error to
  the log and keeps the last 100 entries. (Analytics, user feedback and recovery only
  write to the console.)
\<close>

definition logError :: "ErrorConfig \<Rightarrow> AppError list \<Rightarrow> AppError \<Rightarrow> AppError list" where
  "logError config errorLog err =
     (if \<not> enableLogging config then errorLog
      else (let l = errorLog @ [err]
            in if length l > 100 then drop (length l - 100) l else l))"

section \<open>BigQueryService: forecasts\<close>

subsection \<open>Numbers, instants and the shape of a forecast\<close>

text \<open>
  A JavaScript number in a forecast is a real or \<^verbatim>\<open>NaN\<close> (\<open>None\<close>); a comparison with
  \<^verbatim>\<open>NaN\<close> is false. Infinite values are not modelled.
\<close>

type_synonym jsnum = "real option"

definition js_le :: "jsnum \<Rightarrow> jsnum \<Rightarrow> bool" where
  "js_le a b = (case a of None \<Rightarrow> False | Some x \<Rightarrow> (case b of None \<Rightarrow> False | Some y \<Rightarrow> x \<le> y))"

text \<open>
  A time stamp is the ISO string of a \<^verbatim>\<open>Date\<close>. The code builds dates in two ways:
  \<^verbatim>\<open>new Date(year, month, 1)\<close>, the local midnight that starts a month (the constructor
  carries months below 0 or above 11 into the year, so a month is numbered
  \<open>12 * year + month\<close>), and \<^verbatim>\<open>new Date(milliseconds)\<close>. The order of two instants is
  decided within each kind; the model does not compare a month start with a
  millisecond count.
\<close>

datatype instant = MonthStart int | EpochMs int

fun before :: "instant \<Rightarrow> instant \<Rightarrow> bool" where
  "before (MonthStart a) (MonthStart b) = (a < b)"
| "before (EpochMs a) (EpochMs b) = (a < b)"
| "before _ _ = False"

datatype mode = Demo | Bigquery

record ForecastRequest =
  req_indicator :: string
  req_region :: string
  timeRange :: string
  mode :: mode

text \<open>The field \<^verbatim>\<open>value\<close> of a point is written \<open>fvalue\<close>.\<close>

record ForecastPoint =
  ts :: instant
  fvalue :: jsnum
  confidence_low :: jsnum
  confidence_high :: jsnum

datatype trend_direction = Increasing | Decreasing

record Summary =
  trend :: trend_direction
  impact :: string
  recommendation :: string
  accuracy_score :: real

record ForecastData =
  forecast :: "ForecastPoint list"
  summary :: Summary

subsection \<open>The tables\<close>

text \<open>
  Each table is an object literal indexed by a string, with a default for a missing
  key. (Strings that name a property every object inherits, such as
  \<^verbatim>\<open>constructor\<close>, are not modelled.)
\<close>

definition getTimeHorizon :: "string \<Rightarrow> nat" where
  "getTimeHorizon tr =
     (if tr = ''1y'' then 12 else if tr = ''5y'' then 60 else if tr = ''10y'' then 120 else 120)"

definition getBaseValue :: "string \<Rightarrow> real" where
  "getBaseValue ind =
     (if ind = ''co2'' then 410 else if ind = ''avg_temperature'' then 14.5
      else if ind = ''gdp'' then 55000 else if ind = ''renewable_adoption'' then 25
      else 100)"

definition getTrendMultiplier :: "string \<Rightarrow> real" where
  "getTrendMultiplier ind =
     (if ind = ''co2'' then 2.5 else if ind = ''avg_temperature'' then 0.15
      else if ind = ''gdp'' then 1200 else if ind = ''renewable_adoption'' then 2.0
      else 1)"

definition getImpactMessage :: "string \<Rightarrow> string \<Rightarrow> string" where
  "getImpactMessage ind reg =
     ''Analysis for '' @ reg @ '' shows significant '' @ ind
       @ '' pattern changes requiring strategic response.''"

definition getRecommendation :: "string \<Rightarrow> string" where
  "getRecommendation ind =
     (if ind = ''co2'' then ''Implement carbon pricing and invest in clean technology''
      else if ind = ''avg_temperature'' then ''Enhance climate adaptation infrastructure''
      else if ind = ''gdp'' then ''Develop green economic transition strategies''
      else if ind = ''renewable_adoption'' then ''Accelerate renewable energy deployment''
      else ''Develop comprehensive climate strategy'')"

subsection \<open>The demo generator\<close>

text \<open>\<^verbatim>\<open>Math.round(x)\<close>: the nearest integer, the larger one on a tie.\<close>

definition mathRound :: "real \<Rightarrow> real" where
  "mathRound x = of_int \<lfloor>x + 1 / 2\<rfloor>"

text \<open>
  \<^verbatim>\<open>generateDemoForecast(request)\<close>. \<open>nowMonth\<close> is the month of \<^verbatim>\<open>new Date()\<close>,
  \<open>rnd i\<close> is the draw of \<^verbatim>\<open>Math.random()\<close> in iteration \<open>i\<close> of the loop and
  \<open>rnd horizon\<close> the draw for the accuracy score. \<open>demoPoint\<close> is the body of the loop.
\<close>

definition demoPoint :: "real \<Rightarrow> real \<Rightarrow> int \<Rightarrow> nat \<Rightarrow> nat \<Rightarrow> real \<Rightarrow> ForecastPoint" where
  "demoPoint baseValue trendPerMonth endMonth horizon i r =
     (let v = baseValue + real i * trendPerMonth + (r - 0.5) * baseValue * 0.1
      in \<lparr>ts = MonthStart (endMonth - (int horizon - 1 - int i)),
          fvalue = Some (mathRound (v * 100) / 100),
          confidence_low = Some (mathRound ((v * 0.9) * 100) / 100),
          confidence_high = Some (mathRound ((v * 1.1) * 100) / 100)\<rparr>)"

definition generateDemoForecast :: "ForecastRequest \<Rightarrow> int \<Rightarrow> (nat \<Rightarrow> real) \<Rightarrow> ForecastData" where
  "generateDemoForecast request nowMonth rnd =
     (let horizon = getTimeHorizon (timeRange request);
          baseValue = getBaseValue (req_indicator request);
          trendPerMonth = getTrendMultiplier (req_indicator request);
          points = map (\<lambda>i. demoPoint baseValue trendPerMonth nowMonth horizon i (rnd i)) [0 ..< horizon];
          trendDirection =
            (if length points > 1
                \<and> js_le (fvalue (points ! 0)) (fvalue (points ! (length points - 1)))
             then Increasing else Decreasing)
      in \<lparr>forecast = points,
          summary = \<lparr>trend = trendDirection,
                     impact = getImpactMessage (req_indicator request) (req_region request),
                     recommendation = getRecommendation (req_indicator request),
                     accuracy_score = 0.85 + rnd horizon * 0.1\<rparr>\<rparr>)"

subsection \<open>Historical data and the fallback of \<open>forecastTimeSeries\<close>\<close>

record HistPoint =
  h_timestamp :: instant
  h_value :: real

definition getHistoricalData :: "ForecastRequest \<Rightarrow> int \<Rightarrow> (nat \<Rightarrow> real) \<Rightarrow> HistPoint list" where
  "getHistoricalData request nowMonth rnd =
     (let horizon = getTimeHorizon (timeRange request);
          baseValue = getBaseValue (req_indicator request);
          trendPerMonth = getTrendMultiplier (req_indicator request)
      in map (\<lambda>i. \<lparr>h_timestamp = MonthStart (nowMonth - (int horizon - int i)),
                    h_value = mathRound ((baseValue + real i * trendPerMonth
                                          + (rnd i - 0.5) * baseValue * 0.1) * 100) / 100\<rparr>)
           [0 ..< horizon])"

definition calculateTrend :: "real list \<Rightarrow> real" where
  "calculateTrend vals =
     (if length vals < 2 then 0
      else (let n = real (length vals);
                sumX = n * (n - 1) / 2;
                sumY = sum_list vals;
                sumXY = (\<Sum>idx \<leftarrow> [0 ..< length vals]. vals ! idx * real idx);
                sumXX = n * (n - 1) * (2 * n - 1) / 6
            in (n * sumXY - sumX * sumY) / (n * sumXX - sumX * sumX)))"

definition calculateAutocorrelation :: "real list \<Rightarrow> nat \<Rightarrow> real" where
  "calculateAutocorrelation vals lag =
     (if length vals \<le> lag then 0
      else (let mean = sum_list vals / real (length vals);
                num = (\<Sum>i \<leftarrow> [0 ..< length vals - lag]. (vals ! i - mean) * (vals ! (i + lag) - mean));
                den = (\<Sum>i \<leftarrow> [0 ..< length vals]. (vals ! i - mean) ^ 2)
            in if den = 0 then 0 else num / den))"

definition detectSeasonality :: "real list \<Rightarrow> bool" where
  "detectSeasonality vals \<longleftrightarrow> length vals \<ge> 12 \<and> \<bar>calculateAutocorrelation vals 12\<bar> > 0.3"

text \<open>
  \<^verbatim>\<open>generateIntelligentForecast(data, horizon)\<close>. Its points carry the field
  \<^verbatim>\<open>timestamp\<close>, not \<^verbatim>\<open>ts\<close>. \<open>clock i\<close> is the reading of \<^verbatim>\<open>Date.now()\<close> in iteration
  \<open>i\<close>. With no data, \<^verbatim>\<open>values[values.length - 1]\<close> is undefined and every number of
  the forecast is \<^verbatim>\<open>NaN\<close>.
\<close>

record IntelligentPoint =
  ip_timestamp :: instant
  ip_value :: jsnum
  ip_confidence_low :: jsnum
  ip_confidence_high :: jsnum

record IntelligentForecast =
  ip_forecast :: "IntelligentPoint list"
  ip_trend :: real
  seasonality_detected :: bool

definition intelligentPoint ::
  "real list \<Rightarrow> real \<Rightarrow> bool \<Rightarrow> int \<Rightarrow> nat \<Rightarrow> real \<Rightarrow> IntelligentPoint" where
  "intelligentPoint vals trendPerStep seasonality now i r =
     (let stamp = EpochMs (now + int i * 30 * 24 * 60 * 60 * 1000)
      in case vals of
           [] \<Rightarrow> \<lparr>ip_timestamp = stamp, ip_value = None, ip_confidence_low = None,
                  ip_confidence_high = None\<rparr>
         | _ # _ \<Rightarrow>
             (let baseValue = last vals + trendPerStep * real i;
                  seasonal = (if seasonality
                              then sin (real i * 2 * pi / 12)
                                   * (sum_list vals / real (length vals) * 0.1)
                              else 0);
                  noise = (r - 0.5) * baseValue * 0.05;
                  v = baseValue + seasonal + noise
              in \<lparr>ip_timestamp = stamp, ip_value = Some v, ip_confidence_low = Some (v * 0.9),
                  ip_confidence_high = Some (v * 1.1)\<rparr>))"

definition generateIntelligentForecast ::
  "HistPoint list \<Rightarrow> nat \<Rightarrow> (nat \<Rightarrow> int) \<Rightarrow> (nat \<Rightarrow> real) \<Rightarrow> IntelligentForecast" where
  "generateIntelligentForecast dat horizon clock rnd =
     (let vals = map h_value dat;
          trendPerStep = calculateTrend vals;
          seasonality = detectSeasonality vals
      in \<lparr>ip_forecast = map (\<lambda>i. intelligentPoint vals trendPerStep seasonality (clock i) i (rnd i))
                          [0 ..< horizon],
          ip_trend = trendPerStep, seasonality_detected = seasonality\<rparr>)"

subsection \<open>What the backend returns\<close>

text \<open>
  A row of a forecast answer is read through several field names (\<^verbatim>\<open>forecast_timestamp\<close>,
  \<^verbatim>\<open>timestamp\<close>, \<^verbatim>\<open>ts\<close>; \<^verbatim>\<open>forecast_value\<close>, \<^verbatim>\<open>value\<close>; the confidence bounds) and,
  failing those, through the legacy shape \<^verbatim>\<open>{ f: [{v}, {v}, {v}, {v}] }\<close>. What the
  formatter does next depends only on the four raw values that selection yields.
  A raw number is missing (\<^verbatim>\<open>undefined\<close> or \<^verbatim>\<open>null\<close>, formatted as 0), converts to a
  real, or converts to \<^verbatim>\<open>NaN\<close>. A raw time is falsy (the formatter takes
  \<^verbatim>\<open>Date.now()\<close>), denotes an instant, or is not a valid date (then
  \<^verbatim>\<open>toISOString()\<close> throws a \<^verbatim>\<open>RangeError\<close>). A row that is \<^verbatim>\<open>null\<close> or \<^verbatim>\<open>undefined\<close>
  makes the first field access throw a \<^verbatim>\<open>TypeError\<close>.
\<close>

datatype raw_number = Missing | Number real | NotANumber

datatype raw_time = NoTime | Time instant | BadTime

datatype raw_row = NullRow | Row raw_time raw_number raw_number raw_number

fun toNumber :: "raw_number \<Rightarrow> jsnum" where
  "toNumber Missing = Some 0"
| "toNumber (Number x) = Some x"
| "toNumber NotANumber = None"

text \<open>
  The value \<^verbatim>\<open>forecast_result\<close> of an answer, as far as the service looks at it:
  whether its field \<^verbatim>\<open>forecast\<close> is truthy and, when its field \<^verbatim>\<open>rows\<close> is an array,
  the rows. The answer of the backend lists the \<^verbatim>\<open>forecast_result\<close> of each of its rows
  (\<open>None\<close> when the field is missing or falsy).
\<close>

record RemoteForecast =
  forecast_truthy :: bool
  remote_rows :: "raw_row list option"

record QueryResult =
  jobComplete :: bool
  result_rows :: "RemoteForecast option list"

text \<open>
  What \<open>forecastTimeSeries\<close> can return: a value of the backend, the default
  \<^verbatim>\<open>{ forecast: [], confidence_intervals: [] }\<close>, or the intelligent fallback.
\<close>

datatype forecast_result =
    Remote RemoteForecast
  | EmptyDefault
  | Intelligent IntelligentForecast

text \<open>
  \<^verbatim>\<open>forecastResult.forecast\<close> is truthy (an empty array is truthy), and
  \<^verbatim>\<open>Array.isArray(result?.rows) ? result.rows : []\<close>.
\<close>

fun forecastFieldTruthy :: "forecast_result \<Rightarrow> bool" where
  "forecastFieldTruthy (Remote v) = forecast_truthy v"
| "forecastFieldTruthy EmptyDefault = True"
| "forecastFieldTruthy (Intelligent f) = True"

fun rowsOf :: "forecast_result \<Rightarrow> raw_row list" where
  "rowsOf (Remote v) = (case remote_rows v of None \<Rightarrow> [] | Some rs \<Rightarrow> rs)"
| "rowsOf EmptyDefault = []"
| "rowsOf (Intelligent f) = []"

subsection \<open>The state of the service and the environment of a call\<close>

text \<open>
  The cache key of \<open>forecastTimeSeries\<close> is the JSON text of the first five data points
  and the horizon; it is modelled by that pair. The state joins the cache of the
  service with the counters and the log of the \<open>errorService\<close> singleton it calls.
  The environment of one call holds what the call reads from outside: the month of
  \<^verbatim>\<open>new Date()\<close> when the call starts and when it falls back, the clock at the cache
  lookup and at the later readings, the draws of \<^verbatim>\<open>Math.random()\<close> in order, and the
  backend: \<open>remoteCall k\<close> is what attempt number \<open>k\<close> of the remote operation does. The
  repository itself simulates the backend by \<open>simulatedBackend\<close>.
\<close>

type_synonym forecast_key = "HistPoint list \<times> nat"

record BigQueryState =
  queryCache :: "(forecast_key, forecast_result) query_cache"
  retryCount :: "string \<rightharpoonup> nat"
  errorLog :: "AppError list"

record Env =
  currentMonth :: int
  laterMonth :: int
  nowMs :: int
  laterMs :: "nat \<Rightarrow> int"
  random :: "nat \<Rightarrow> real"
  remoteCall :: "nat \<Rightarrow> thrown + QueryResult"

definition simulatedBackend :: "nat \<Rightarrow> thrown + QueryResult" where
  "simulatedBackend k = Inr \<lparr>jobComplete = True, result_rows = []\<rparr>"

subsection \<open>\<open>executeBigQueryAI\<close> and \<open>forecastTimeSeries\<close>\<close>

text \<open>
  \<^verbatim>\<open>executeBigQueryAI(query)\<close>: validate the query, run the remote operation under
  \<open>withRetry\<close> with the operation id \<^verbatim>\<open>`bigquery-${query.substring(0, 50)}`\<close>; whatever
  is thrown inside (the validation error too) is caught, wrapped in a
  \<^verbatim>\<open>BIGQUERY_EXECUTION_ERROR\<close>, logged and thrown again.
\<close>

definition queryRules :: "ValidationRule list" where
  "queryRules =
     [\<lparr>field = ''query'', rtype = Required, rmessage = ''BigQuery query is required''\<rparr>,
      \<lparr>field = ''query'', rtype = StringRule (Some 10) None, rmessage = ''Query must be a string''\<rparr>]"

fun joinWith :: "string \<Rightarrow> string list \<Rightarrow> string" where
  "joinWith sep [] = []"
| "joinWith sep [x] = x"
| "joinWith sep (x # y # zs) = x @ sep @ joinWith sep (y # zs)"

definition executionError :: "thrown \<Rightarrow> AppError" where
  "executionError err =
     createError (''BigQuery execution failed: '' @ errorMessage err)
       ''BIGQUERY_EXECUTION_ERROR'' HIGH API (Some ''BigQueryService'')
       (Some ''executeBigQueryAI'') True"

definition executeBigQueryAI ::
  "ErrorConfig \<Rightarrow> (nat \<Rightarrow> thrown + QueryResult) \<Rightarrow> string \<Rightarrow> BigQueryState
   \<Rightarrow> (thrown + QueryResult) \<times> BigQueryState" where
  "executeBigQueryAI config remote query st =
     (let validation = validate [''query'' \<mapsto> query] queryRules
      in if \<not> isValid validation
         then (let err = AppErr (createError
                           (''Query validation failed: ''
                              @ joinWith '', '' (map snd (errors validation)))
                           ''QUERY_VALIDATION_ERROR'' MEDIUM VALIDATION
                           (Some ''BigQueryService'') (Some ''executeBigQueryAI'') True);
                   appError = executionError err
               in (Inl (AppErr appError),
                   st\<lparr>errorLog := logError config (errorLog st) appError\<rparr>))
         else (let out = withRetry config remote 0 (''bigquery-'' @ take 50 query) None
                           (retryCount st);
                   st1 = st\<lparr>retryCount := counters out\<rparr>
               in case settled out of
                    Inr res \<Rightarrow> (Inr res, st1)
                  | Inl err \<Rightarrow>
                      (let appError = executionError err
                       in (Inl (AppErr appError),
                           st1\<lparr>errorLog := logError config (errorLog st1) appError\<rparr>))))"

text \<open>
  The query of \<open>forecastTimeSeries\<close> is a template around the rendering of the data; the
  text the data render to is a parameter. Line breaks of the template are written as
  blanks.
\<close>

definition forecastQuery :: "string \<Rightarrow> nat \<Rightarrow> string" where
  "forecastQuery rendered horizon =
     '' SELECT AI.FORECAST( data_table, STRUCT('' @ showNat horizon
       @ '' AS horizon, 0.95 AS confidence_level) ) AS forecast_result FROM ( SELECT ''
       @ ''ARRAY<STRUCT<timestamp TIMESTAMP, value FLOAT64>>[ '' @ rendered
       @ '' ] AS data_table ) ''"

text \<open>
  \<^verbatim>\<open>forecastTimeSeries(data, horizon)\<close>: a cached value is returned as it is; otherwise
  the answer of the backend is read (\<^verbatim>\<open>result.rows?.[0]?.forecast_result || default\<close>),
  stored and returned; a failure of \<open>executeBigQueryAI\<close> is caught and the intelligent
  fallback returned (it is not stored). The result is \<open>Inr\<close> in every case: the two
  \<^verbatim>\<open>await\<close>s of the method sit inside its \<^verbatim>\<open>try\<close>.
\<close>

definition forecastTimeSeries ::
  "ErrorConfig \<Rightarrow> Env \<Rightarrow> (HistPoint list \<Rightarrow> string) \<Rightarrow> (nat \<Rightarrow> real) \<Rightarrow> HistPoint list \<Rightarrow> nat
   \<Rightarrow> BigQueryState \<Rightarrow> (thrown + forecast_result) \<times> BigQueryState" where
  "forecastTimeSeries config env render rnd dat horizon st =
     (let cacheKey = (take 5 dat, horizon)
      in case getCachedResult (queryCache st) (nowMs env) cacheKey of
           Some cached \<Rightarrow> (Inr cached, st)
         | None \<Rightarrow>
             (case executeBigQueryAI config (remoteCall env) (forecastQuery (render dat) horizon) st of
                (Inr res, st1) \<Rightarrow>
                  (let forecastResult =
                         (case result_rows res of
                            [] \<Rightarrow> EmptyDefault
                          | None # _ \<Rightarrow> EmptyDefault
                          | Some v # _ \<Rightarrow> Remote v)
                   in (Inr forecastResult,
                       st1\<lparr>queryCache := setCachedResult (queryCache st1) (laterMs env 0) cacheKey
                                            forecastResult\<rparr>))
              | (Inl err, st1) \<Rightarrow>
                  (Inr (Intelligent (generateIntelligentForecast dat horizon (laterMs env) rnd)),
                   st1)))"

subsection \<open>\<open>formatForecastResult\<close> and \<open>generateForecast\<close>\<close>

text \<open>
  The body of \<^verbatim>\<open>rows.map(...)\<close> for one row, and the map itself, which stops at the
  first row that throws.
\<close>

fun formatRow :: "int \<Rightarrow> raw_row \<Rightarrow> thrown + ForecastPoint" where
  "formatRow now NullRow = Inl (PlainError ''TypeError'')"
| "formatRow now (Row BadTime v lo hi) = Inl (PlainError ''RangeError: Invalid time value'')"
| "formatRow now (Row NoTime v lo hi) =
     Inr \<lparr>ts = EpochMs now, fvalue = toNumber v, confidence_low = toNumber lo,
          confidence_high = toNumber hi\<rparr>"
| "formatRow now (Row (Time t) v lo hi) =
     Inr \<lparr>ts = t, fvalue = toNumber v, confidence_low = toNumber lo,
          confidence_high = toNumber hi\<rparr>"

fun formatRows :: "int \<Rightarrow> raw_row list \<Rightarrow> thrown + ForecastPoint list" where
  "formatRows now [] = Inr []"
| "formatRows now (r # rs) =
     (case formatRow now r of
        Inl err \<Rightarrow> Inl err
      | Inr p \<Rightarrow> (case formatRows now rs of Inl err \<Rightarrow> Inl err | Inr ps \<Rightarrow> Inr (p # ps)))"

text \<open>
  \<^verbatim>\<open>formatForecastResult(result, request)\<close>: no rows, or an exception while formatting,
  give the demo forecast; otherwise the rows are copied into points and the trend is
  read from the first and the last point.
\<close>

definition formatForecastResult ::
  "forecast_result \<Rightarrow> ForecastRequest \<Rightarrow> int \<Rightarrow> int \<Rightarrow> (nat \<Rightarrow> real) \<Rightarrow> ForecastData" where
  "formatForecastResult res request now nowMonth rnd =
     (let rows = rowsOf res
      in if rows = [] then generateDemoForecast request nowMonth rnd
         else (case formatRows now rows of
                 Inl err \<Rightarrow> generateDemoForecast request nowMonth rnd
               | Inr points \<Rightarrow>
                   (let first = fvalue (points ! 0);
                        lst = fvalue (points ! (length points - 1));
                        trendDirection = (if js_le first lst then Increasing else Decreasing)
                    in \<lparr>forecast = points,
                        summary = \<lparr>trend = trendDirection,
                                   impact = getImpactMessage (req_indicator request) (req_region request),
                                   recommendation = getRecommendation (req_indicator request),
                                   accuracy_score = 0.88\<rparr>\<rparr>)))"

text \<open>
  \<^verbatim>\<open>generateForecast(request)\<close>. The draws of \<^verbatim>\<open>Math.random()\<close> are used in order:
  first by \<open>getHistoricalData\<close>, then by the intelligent fallback if it runs, then by the
  demo generator.
\<close>

definition generateForecast ::
  "ErrorConfig \<Rightarrow> Env \<Rightarrow> (HistPoint list \<Rightarrow> string) \<Rightarrow> ForecastRequest \<Rightarrow> BigQueryState
   \<Rightarrow> (thrown + ForecastData) \<times> BigQueryState" where
  "generateForecast config env render request st =
     (if mode request = Demo
      then (Inr (generateDemoForecast request (currentMonth env) (random env)), st)
      else (let historicalData = getHistoricalData request (currentMonth env) (random env);
                horizon = getTimeHorizon (timeRange request)
            in case forecastTimeSeries config env render (\<lambda>i. random env (horizon + i))
                      historicalData horizon st of
                 (Inl err, st1) \<Rightarrow>
                   (Inr (generateDemoForecast request (laterMonth env)
                           (\<lambda>i. random env (horizon + i))), st1)
               | (Inr forecastResult, st1) \<Rightarrow>
                   (let drawn = (case forecastResult of Intelligent f \<Rightarrow> 2 * horizon | _ \<Rightarrow> horizon);
                        rnd = (\<lambda>i. random env (drawn + i))
                    in if forecastFieldTruthy forecastResult
                       then (Inr (formatForecastResult forecastResult request (laterMs env 1)
                                    (laterMonth env) rnd), st1)
                       else (Inr (generateDemoForecast request (laterMonth env) rnd), st1))))"

subsection \<open>The fallback of the dashboard\<close>

text \<open>
  \<^verbatim>\<open>ClimateInsightEngine.fetchClimateData\<close>, as far as the forecast goes. The
  parameters are validated; the services are imported; the forecast of
  \<open>generateForecast\<close> is shown when its promise is fulfilled (\<open>None\<close> stands for a
  forecast left as it was). Any exception on the way (the validation error
  \<^verbatim>\<open>INVALID_PARAMS\<close>, a failed import) is caught, logged and the mock forecast shown
  instead. \<open>importError\<close> is the message of the error the dynamic import rejects
  with, if it does; \<open>currentYear\<close> is the year of \<^verbatim>\<open>new Date()\<close>. Characters outside
  ASCII in the texts of the dashboard are written in ASCII.
\<close>

definition mockValue :: "string \<Rightarrow> nat \<Rightarrow> real \<Rightarrow> real" where
  "mockValue ind i r =
     (if ind = ''co2'' then 400 + sin (real i * 0.05) * 10 + real i * 0.5
      else if ind = ''avg_temperature'' then 14.5 + sin (real i * 0.5) * 2 + real i * 0.01
      else if ind = ''gdp'' then 50000 + sin (real i * 0.02) * 5000 + real i * 100
      else if ind = ''renewable_adoption'' then 10 + real i * 0.3 + sin (real i * 0.1) * 2
      else r * 100)"

definition generateMockForecast :: "string \<Rightarrow> int \<Rightarrow> (nat \<Rightarrow> real) \<Rightarrow> ForecastPoint list" where
  "generateMockForecast ind currentYear rnd =
     map (\<lambda>i. (let v = mockValue ind i (rnd i)
               in \<lparr>ts = MonthStart (12 * (currentYear - 10 + int (i div 12)) + int (i mod 12)),
                   fvalue = Some (mathRound (v * 100) / 100),
                   confidence_low = Some (mathRound ((v * 0.9) * 100) / 100),
                   confidence_high = Some (mathRound ((v * 1.1) * 100) / 100)\<rparr>))
       [0 ..< 120]"

definition engineImpactMessage :: "string \<Rightarrow> string" where
  "engineImpactMessage ind =
     (if ind = ''co2''
      then ''Current CO2 levels are 50% above pre-industrial baseline, accelerating climate change effects globally.''
      else if ind = ''avg_temperature''
      then ''Global temperatures have risen 1.2 C since 1880, with accelerating warming in polar regions.''
      else if ind = ''gdp''
      then ''Climate adaptation costs are projected to reach 2-3% of global GDP by 2030.''
      else if ind = ''renewable_adoption''
      then ''Renewable energy adoption is accelerating but needs 3x faster growth to meet 2030 targets.''
      else ''Significant environmental and economic impacts detected.'')"

definition engineRecommendation :: "string \<Rightarrow> string" where
  "engineRecommendation ind =
     (if ind = ''co2''
      then ''Implement immediate carbon pricing mechanisms and invest in carbon capture technologies.''
      else if ind = ''avg_temperature''
      then ''Prioritize adaptation strategies in vulnerable regions and enhance early warning systems.''
      else if ind = ''gdp''
      then ''Increase climate finance allocation and develop green economic transition plans.''
      else if ind = ''renewable_adoption''
      then ''Remove policy barriers and increase renewable energy investment incentives.''
      else ''Develop comprehensive climate action strategy.'')"

definition mockForecast :: "string \<Rightarrow> int \<Rightarrow> (nat \<Rightarrow> real) \<Rightarrow> ForecastData" where
  "mockForecast ind currentYear rnd =
     \<lparr>forecast = generateMockForecast ind currentYear rnd,
      summary = \<lparr>trend = (if ind = ''co2'' then Increasing else Decreasing),
                 impact = engineImpactMessage ind,
                 recommendation = engineRecommendation ind,
                 accuracy_score = 0.87\<rparr>\<rparr>"

definition climateFields :: "ForecastRequest \<Rightarrow> (string \<rightharpoonup> string)" where
  "climateFields request =
     [''indicator'' \<mapsto> req_indicator request, ''region'' \<mapsto> req_region request,
      ''timeRange'' \<mapsto> timeRange request,
      ''mode'' \<mapsto> (case mode request of Demo \<Rightarrow> ''demo'' | Bigquery \<Rightarrow> ''bigquery'')]"

definition fetchClimateData ::
  "ErrorConfig \<Rightarrow> Env \<Rightarrow> (HistPoint list \<Rightarrow> string) \<Rightarrow> string option \<Rightarrow> int
   \<Rightarrow> ForecastRequest \<Rightarrow> BigQueryState \<Rightarrow> ForecastData option \<times> BigQueryState" where
  "fetchClimateData config env render importError currentYear climateData st =
     (if \<not> isValid (validateClimateData (climateFields climateData))
      then (Some (mockForecast (req_indicator climateData) currentYear (random env)),
            st\<lparr>errorLog := logError config (errorLog st)
                              (createError ''Invalid climate data parameters'' ''INVALID_PARAMS''
                                 MEDIUM VALIDATION (Some ''ClimateInsightEngine'')
                                 (Some ''fetchClimateData'') True)\<rparr>)
      else (case importError of
              Some msg \<Rightarrow>
                (Some (mockForecast (req_indicator climateData) currentYear (random env)),
                 st\<lparr>errorLog := logError config (errorLog st)
                                   (createError msg ''UNKNOWN_ERROR'' MEDIUM API None
                                      (Some ''unknown'') True)\<rparr>)
            | None \<Rightarrow>
                (case generateForecast config env render climateData st of
                   (Inr f, st1) \<Rightarrow> (Some f, st1)
                 | (Inl err, st1) \<Rightarrow> (None, st1))))"

subsection \<open>The properties of a forecast series\<close>




definition trendFromEnds :: "ForecastPoint list \<Rightarrow> trend_direction" where
  "trendFromEnds points =
     (case points of
        [] \<Rightarrow> Decreasing
      | p # ps \<Rightarrow> if js_le (fvalue p) (fvalue (last (p # ps))) then Increasing else Decreasing)"



section \<open>VectorSearchService: similar regions\<close>

text \<open>
  \<^verbatim>\<open>interface SimilarityResult\<close>; the object \<^verbatim>\<open>key_metrics\<close> is the list of its entries
  in insertion order. The fields \<^verbatim>\<open>region\<close> and \<^verbatim>\<open>country\<close> are written \<open>sr_region\<close> and
  \<open>sr_country\<close>.
\<close>

record Analysis =
  correlation_strength :: real
  temporal_alignment :: real
  pattern_confidence :: real
  insights :: "string list"



















section \<open>Theorems: the query cache\<close>

text \<open>
  C6. An entry stored by \<open>setCachedResult\<close> at time \<open>t0\<close> is read back by
  \<open>getCachedResult\<close> at time \<open>now\<close> exactly when \<open>now - t0 < CACHE_TTL\<close>, with
  \<open>CACHE_TTL = 300000\<close>: before the boundary the stored value comes back unchanged, at
  or after it the read yields \<open>null\<close>. Reading does not touch the map (expiry is lazy),
  a second store under the same key replaces the entry wholesale, and other keys are
  not affected.
\<close>

theorem cache_entry_readable_iff_fresh:
  "CACHE_TTL = 300000
   \<and> (getCachedResult (setCachedResult entries t0 key v) now key = Some v
        \<longleftrightarrow> now - t0 < CACHE_TTL)
   \<and> (getCachedResult (setCachedResult entries t0 key v) now key = None
        \<longleftrightarrow> CACHE_TTL \<le> now - t0)
   \<and> setCachedResult (setCachedResult entries t0 key v) t1 key v'
        = setCachedResult entries t1 key v'
   \<and> (key' \<noteq> key \<longrightarrow> setCachedResult entries t0 key v key' = entries key')"
  by (simp add: getCachedResult_def setCachedResult_def CACHE_TTL_def)

theorem cache_entry_readable_iff_fresh_witness:
  "getCachedResult (setCachedResult Map.empty 1000 ''k'' (7::nat)) (1000 + 299999) ''k'' = Some 7
   \<and> getCachedResult (setCachedResult Map.empty 1000 ''k'' (7::nat)) (1000 + 300000) ''k'' = None
   \<and> getCachedResult (setCachedResult Map.empty 1000 ''k'' (7::nat)) (1000 + 300001) ''k'' = None
   \<and> setCachedResult (Map.empty :: (string, nat) query_cache) 1000 ''k'' 7 ''j'' = None"
proof -
  let ?qc = "Map.empty :: (string, nat) query_cache"
  have before: "getCachedResult (setCachedResult ?qc 1000 ''k'' 7) (1000 + 299999) ''k'' = Some 7"
    using cache_entry_readable_iff_fresh [of ?qc 1000 "''k''" 7 "1000 + 299999" 0 7 "''j''"]
    by (simp add: CACHE_TTL_def)
  have at: "getCachedResult (setCachedResult ?qc 1000 ''k'' 7) (1000 + 300000) ''k'' = None"
    using cache_entry_readable_iff_fresh [of ?qc 1000 "''k''" 7 "1000 + 300000" 0 7 "''j''"]
    by (simp add: CACHE_TTL_def)
  have after: "getCachedResult (setCachedResult ?qc 1000 ''k'' 7) (1000 + 300001) ''k'' = None"
    using cache_entry_readable_iff_fresh [of ?qc 1000 "''k''" 7 "1000 + 300001" 0 7 "''j''"]
    by (simp add: CACHE_TTL_def)
  have other: "setCachedResult ?qc 1000 ''k'' 7 ''j'' = None"
    using cache_entry_readable_iff_fresh [of ?qc 1000 "''k''" 7 0 0 7 "''j''"]
    by simp
  from before at after other show ?thesis by blast
qed

section \<open>Theorems: RealTimeService\<close>

subsection \<open>What \<open>subscribe\<close> and the returned closure do, case by case\<close>




lemma unsubscribe_absent:
  assumes "subscribers st key = None \<or> (\<exists>callbacks. subscribers st key = Some callbacks \<and> cb \<notin> set callbacks)"
  shows "unsubscribe st key cb = st"
  using assms by (auto simp: unsubscribe_def)

lemma unsubscribe_one_of_many:
  assumes "subscribers st key = Some callbacks" "cb \<in> set callbacks" "remove1 cb callbacks \<noteq> []"
  shows "unsubscribe st key cb = st\<lparr>subscribers := (subscribers st)(key \<mapsto> remove1 cb callbacks)\<rparr>"
  using assms by (simp add: unsubscribe_def Let_def)


subsection \<open>The invariant holds in every reachable state\<close>













subsection \<open>A topic without subscribers receives nothing\<close>






lemma fetchLatestData_topic:
  assumes "fetchLatestData lv ind reg now rnd = (u, lv')"
  shows "indicator u = ind" "region u = reg" "source u = getDataSource ind" "reliability u = High"
  using assms by (auto simp: fetchLatestData_def Let_def)



lemma unsubscribe_twice_once:
  assumes "\<forall>callbacks. subscribers st key = Some callbacks \<longrightarrow> cb \<notin> set (remove1 cb callbacks)"
  shows "unsubscribe (unsubscribe st key cb) key cb = unsubscribe st key cb"
proof (cases "subscribers st key")
  case None
  then show ?thesis by (simp add: unsubscribe_def)
next
  case (Some cbs)
  show ?thesis
  proof (cases "cb \<in> set cbs")
    case False
    with Some show ?thesis by (simp add: unsubscribe_def)
  next
    case True
    from assms Some have gone: "cb \<notin> set (remove1 cb cbs)" by simp
    show ?thesis
    proof (cases "remove1 cb cbs = []")
      case empty: True
      from Some True empty have "subscribers (unsubscribe st key cb) key = None"
        by (simp add: unsubscribe_def stopPolling_def Let_def split: option.splits)
      then show ?thesis by (simp add: unsubscribe_absent)
    next
      case False
      from Some True False
      have "subscribers (unsubscribe st key cb) key = Some (remove1 cb cbs)"
        by (simp add: unsubscribe_one_of_many)
      with gone show ?thesis by (simp add: unsubscribe_absent)
    qed
  qed
qed

lemma remove1_single_occurrence:
  "count_list callbacks cb \<le> 1 \<Longrightarrow> cb \<notin> set (remove1 cb callbacks)"
  by (induction callbacks) (auto simp: count_list_0_iff)


lemma two_listeners_state:
  "subscribers (subscribe (subscribe initialState ''co2'' ''Germany'' 7) ''co2'' ''Germany'' 8)
     ''co2-Germany'' = Some [7, 8]"
  by (simp add: subscribe_def startPolling_def stopPolling_def initialState_def topicKey_def Let_def)

subsection \<open>The lifecycle of a topic\<close>



subsection \<open>Alerts\<close>

text \<open>
  C8, as the code has it. For an update and the alert rule stored under its key,
  \<^verbatim>\<open>triggerAlert\<close> is called exactly when the threshold test passes
  (\<open>\<bar>change\<bar> \<ge> threshold\<close> for an absolute rule, \<open>\<bar>changePercent\<bar> \<ge> threshold\<close>
  for a percentage rule) and the direction test passes: \<open>both\<close> always passes,
  \<open>increase\<close> passes when \<open>change > 0\<close>, and \<open>decrease\<close> passes when \<open>change \<le> 0\<close>
  (the code classifies every change that is not positive as a decrease). With
  threshold 5, percentage, increase: an update with \<open>changePercent = 6\<close> and a positive
  \<open>change\<close> triggers; one with \<open>changePercent = -6\<close> and a negative \<open>change\<close> does
  not; one with \<open>changePercent = 4\<close> does not.
\<close>

theorem alert_fires_iff:
  "alertMap (topicKey (indicator update) (region update)) = Some config \<Longrightarrow>
     (checkAlerts alertMap update \<longleftrightarrow>
        (if atype config = Absolute
         then \<bar>change update\<bar> \<ge> threshold config
         else \<bar>changePercent update\<bar> \<ge> threshold config)
        \<and> (direction config = Both
           \<or> (direction config = Increase \<and> change update > 0)
           \<or> (direction config = Decrease \<and> change update \<le> 0)))
     \<and> (threshold config = 5 \<and> atype config = Percentage \<and> direction config = Increase \<longrightarrow>
          (changePercent update = 6 \<and> change update > 0 \<longrightarrow> checkAlerts alertMap update)
          \<and> (changePercent update = - 6 \<and> change update < 0 \<longrightarrow> \<not> checkAlerts alertMap update)
          \<and> (changePercent update = 4 \<longrightarrow> \<not> checkAlerts alertMap update))"
  by (cases "direction config") (auto simp: checkAlerts_def Let_def)

theorem alert_fires_iff_witness:
  "checkAlerts [''co2-Germany'' \<mapsto> \<lparr>threshold = 5, atype = Percentage, direction = Increase\<rparr>]
      \<lparr>stamp = 0, indicator = ''co2'', region = ''Germany'', val = 439.9, change = 24.9,
       changePercent = 6, source = ''s'', reliability = High\<rparr>
   \<and> \<not> checkAlerts [''co2-Germany'' \<mapsto> \<lparr>threshold = 5, atype = Percentage, direction = Increase\<rparr>]
      \<lparr>stamp = 0, indicator = ''co2'', region = ''Germany'', val = 390.1, change = - 24.9,
       changePercent = - 6, source = ''s'', reliability = High\<rparr>
   \<and> \<not> checkAlerts [''co2-Germany'' \<mapsto> \<lparr>threshold = 5, atype = Percentage, direction = Increase\<rparr>]
      \<lparr>stamp = 0, indicator = ''co2'', region = ''Germany'', val = 431.6, change = 16.6,
       changePercent = 4, source = ''s'', reliability = High\<rparr>"
proof -
  let ?m = "[''co2-Germany'' \<mapsto> \<lparr>threshold = 5, atype = Percentage, direction = Increase\<rparr>]"
  let ?c = "\<lparr>threshold = 5, atype = Percentage, direction = Increase\<rparr>"
  let ?u1 = "\<lparr>stamp = 0, indicator = ''co2'', region = ''Germany'', val = 439.9, change = 24.9,
       changePercent = 6, source = ''s'', reliability = High\<rparr>"
  let ?u2 = "\<lparr>stamp = 0, indicator = ''co2'', region = ''Germany'', val = 390.1, change = - 24.9,
       changePercent = - 6, source = ''s'', reliability = High\<rparr>"
  let ?u3 = "\<lparr>stamp = 0, indicator = ''co2'', region = ''Germany'', val = 431.6, change = 16.6,
       changePercent = 4, source = ''s'', reliability = High\<rparr>"
  have k1: "?m (topicKey (indicator ?u1) (region ?u1)) = Some ?c" by (simp add: topicKey_def)
  have k2: "?m (topicKey (indicator ?u2) (region ?u2)) = Some ?c" by (simp add: topicKey_def)
  have k3: "?m (topicKey (indicator ?u3) (region ?u3)) = Some ?c" by (simp add: topicKey_def)
  have a: "checkAlerts ?m ?u1" using alert_fires_iff [of ?m ?u1 ?c] k1 by simp
  have b: "\<not> checkAlerts ?m ?u2" using alert_fires_iff [of ?m ?u2 ?c] k2 by simp
  have c: "\<not> checkAlerts ?m ?u3" using alert_fires_iff [of ?m ?u3 ?c] k3 by simp
  from a b c show ?thesis by blast
qed

text \<open>
  C8 as the specification words it fails in two places. A rule with threshold 0 and
  direction \<open>decrease\<close> fires on an update whose \<open>change\<close> is zero, although the sign
  of a zero change does not match a decrease. And the direction is read from
  \<open>change\<close>, not from \<open>changePercent\<close>: an update with \<open>changePercent = 6\<close> and a
  negative \<open>change\<close> (a negative value that moved away from zero) does not trigger an
  \<open>increase\<close> rule with threshold 5.
\<close>

theorem alert_direction_counterexample:
  "checkAlerts [''co2-Germany'' \<mapsto> \<lparr>threshold = 0, atype = Absolute, direction = Decrease\<rparr>]
      \<lparr>stamp = 0, indicator = ''co2'', region = ''Germany'', val = 415, change = 0,
       changePercent = 0, source = ''NOAA Global Monitoring Laboratory'', reliability = High\<rparr>
   \<and> \<not> specAlertFires \<lparr>threshold = 0, atype = Absolute, direction = Decrease\<rparr>
      \<lparr>stamp = 0, indicator = ''co2'', region = ''Germany'', val = 415, change = 0,
       changePercent = 0, source = ''NOAA Global Monitoring Laboratory'', reliability = High\<rparr>
   \<and> \<not> checkAlerts
      [''avg_temperature-Yakutsk'' \<mapsto> \<lparr>threshold = 5, atype = Percentage, direction = Increase\<rparr>]
      \<lparr>stamp = 0, indicator = ''avg_temperature'', region = ''Yakutsk'', val = - 5.3,
       change = - 0.3, changePercent = 6, source = ''NASA GISS Temperature Data'',
       reliability = High\<rparr>"
  by (simp add: checkAlerts_def specAlertFires_def topicKey_def)

subsection \<open>Removing a callback twice\<close>

text \<open>
  C9, as the code has it. Calling the closure returned by \<open>subscribe\<close> when its
  callback is not in the list of its key (or the key has no list) changes nothing.
  A second call of the closure changes nothing when the callback was registered at
  most once for the key: the first call has removed it. (When the same callback
  function is registered several times, every call removes one registration.)
\<close>

theorem unsubscribe_idempotent:
  "((subscribers st key = None
      \<or> (\<exists>callbacks. subscribers st key = Some callbacks \<and> cb \<notin> set callbacks))
     \<longrightarrow> unsubscribe st key cb = st)
   \<and> ((\<forall>callbacks. subscribers st key = Some callbacks \<longrightarrow> count_list callbacks cb \<le> 1)
     \<longrightarrow> unsubscribe (unsubscribe st key cb) key cb = unsubscribe st key cb)"
proof (intro conjI impI)
  assume "subscribers st key = None
      \<or> (\<exists>callbacks. subscribers st key = Some callbacks \<and> cb \<notin> set callbacks)"
  then show "unsubscribe st key cb = st" by (rule unsubscribe_absent)
next
  assume "\<forall>callbacks. subscribers st key = Some callbacks \<longrightarrow> count_list callbacks cb \<le> 1"
  then have "\<forall>callbacks. subscribers st key = Some callbacks \<longrightarrow> cb \<notin> set (remove1 cb callbacks)"
    by (simp add: remove1_single_occurrence)
  then show "unsubscribe (unsubscribe st key cb) key cb = unsubscribe st key cb"
    by (rule unsubscribe_twice_once)
qed

theorem unsubscribe_idempotent_witness:
  "unsubscribe (unsubscribe
      (subscribe (subscribe initialState ''co2'' ''Germany'' 7) ''co2'' ''Germany'' 8)
      ''co2-Germany'' 7) ''co2-Germany'' 7
   = unsubscribe
      (subscribe (subscribe initialState ''co2'' ''Germany'' 7) ''co2'' ''Germany'' 8)
      ''co2-Germany'' 7
   \<and> unsubscribe
      (subscribe (subscribe initialState ''co2'' ''Germany'' 7) ''co2'' ''Germany'' 8)
      ''co2-Germany'' 9
   = subscribe (subscribe initialState ''co2'' ''Germany'' 7) ''co2'' ''Germany'' 8
   \<and> unsubscribe initialState ''co2-Germany'' 7 = initialState"
proof -
  let ?st = "subscribe (subscribe initialState ''co2'' ''Germany'' 7) ''co2'' ''Germany'' 8"
  have a: "unsubscribe (unsubscribe ?st ''co2-Germany'' 7) ''co2-Germany'' 7
             = unsubscribe ?st ''co2-Germany'' 7"
    using unsubscribe_idempotent [of ?st "''co2-Germany''" 7] two_listeners_state by simp
  have b: "unsubscribe ?st ''co2-Germany'' 9 = ?st"
    using unsubscribe_idempotent [of ?st "''co2-Germany''" 9] two_listeners_state by simp
  have c: "unsubscribe initialState ''co2-Germany'' 7 = initialState"
    using unsubscribe_idempotent [of initialState "''co2-Germany''" 7]
    by (simp add: initialState_def)
  from a b c show ?thesis by blast
qed

text \<open>
  C9 as the specification words it fails when one callback function is subscribed
  twice to a topic: the second call of the first closure removes the registration of
  the second subscription, clears the interval and deletes the key.
\<close>

theorem unsubscribe_twice_counterexample:
  "unsubscribe (unsubscribe
      (subscribe (subscribe initialState ''co2'' ''Germany'' 7) ''co2'' ''Germany'' 7)
      ''co2-Germany'' 7) ''co2-Germany'' 7
   \<noteq> unsubscribe
      (subscribe (subscribe initialState ''co2'' ''Germany'' 7) ''co2'' ''Germany'' 7)
      ''co2-Germany'' 7"
proof -
  let ?st = "subscribe (subscribe initialState ''co2'' ''Germany'' 7) ''co2'' ''Germany'' 7"
  have s: "subscribers ?st ''co2-Germany'' = Some [7, 7]"
    by (simp add: subscribe_def startPolling_def stopPolling_def initialState_def topicKey_def Let_def)
  have one: "subscribers (unsubscribe ?st ''co2-Germany'' 7) ''co2-Germany'' = Some [7]"
    using s by (simp add: unsubscribe_def Let_def)
  then have "subscribers (unsubscribe (unsubscribe ?st ''co2-Germany'' 7) ''co2-Germany'' 7)
               ''co2-Germany'' = None"
    by (simp add: unsubscribe_def stopPolling_def Let_def split: option.splits)
  with one show ?thesis by auto
qed

section \<open>Theorems: ErrorService\<close>

lemma withRetry_counters:
  "counters (withRetry config operation calls operationId maxRetriesArg counts)
     = counts(operationId := None)"
proof (induction config operation calls operationId maxRetriesArg counts rule: withRetry.induct)
  case (1 config operation calls operationId maxRetriesArg counts)
  show ?case
  proof (cases "operation calls")
    case (Inr res)
    then show ?thesis by (subst withRetry.simps) simp
  next
    case (Inl err)
    show ?thesis
    proof (cases "int (currentRetryCount counts operationId) < retryLimit config maxRetriesArg")
      case True
      let ?rest = "withRetry config operation (Suc calls) operationId maxRetriesArg
                     (counts(operationId \<mapsto> currentRetryCount counts operationId + 1))"
      have "counters ?rest = counts(operationId := None)"
        using "1.IH" [OF refl refl Inl True refl] by (simp add: fun_upd_def cong: if_cong)
      moreover have "counters (withRetry config operation calls operationId maxRetriesArg counts)
                       = counters ?rest"
        using Inl True by (subst withRetry.simps) (simp add: Let_def)
      ultimately show ?thesis by simp
    next
      case False
      with Inl show ?thesis by (subst withRetry.simps) simp
    qed
  qed
qed

lemma withRetry_delays:
  "delays (withRetry config operation calls operationId maxRetriesArg counts)
     = map (\<lambda>k. retryDelay config * 2 ^ (currentRetryCount counts operationId + k))
         [0 ..< length (delays (withRetry config operation calls operationId maxRetriesArg counts))]"
proof (induction config operation calls operationId maxRetriesArg counts rule: withRetry.induct)
  case (1 config operation calls operationId maxRetriesArg counts)
  show ?case
  proof (cases "operation calls")
    case (Inr res)
    then show ?thesis by (subst (1 2) withRetry.simps) simp
  next
    case (Inl err)
    show ?thesis
    proof (cases "int (currentRetryCount counts operationId) < retryLimit config maxRetriesArg")
      case True
      let ?c = "currentRetryCount counts operationId"
      let ?rest = "withRetry config operation (Suc calls) operationId maxRetriesArg
                     (counts(operationId \<mapsto> ?c + 1))"
      have cur: "currentRetryCount (counts(operationId \<mapsto> ?c + 1)) operationId = Suc ?c"
        by (simp add: currentRetryCount_def)
      have ih: "delays ?rest = map (\<lambda>k. retryDelay config * 2 ^ (Suc ?c + k)) [0 ..< length (delays ?rest)]"
        using "1.IH" [OF refl refl Inl True refl] cur by (simp add: fun_upd_def)
      have unfold: "delays (withRetry config operation calls operationId maxRetriesArg counts)
                      = retryDelay config * 2 ^ ?c # delays ?rest"
        using Inl True by (subst withRetry.simps) (simp add: Let_def)
      have "map (\<lambda>k. retryDelay config * 2 ^ (?c + k)) [0 ..< Suc (length (delays ?rest))]
              = retryDelay config * 2 ^ ?c # map (\<lambda>k. retryDelay config * 2 ^ (Suc ?c + k)) [0 ..< length (delays ?rest)]"
        by (simp add: upt_rec [of 0] map_Suc_upt [symmetric] del: upt_Suc)
      with ih unfold show ?thesis by simp
    next
      case False
      with Inl show ?thesis by (subst (1 2) withRetry.simps) simp
    qed
  qed
qed

lemma withRetry_settled:
  "(case settled (withRetry config operation calls operationId maxRetriesArg counts) of
      Inr res \<Rightarrow>
        operation (callsMade (withRetry config operation calls operationId maxRetriesArg counts) - 1)
          = Inr res
    | Inl e \<Rightarrow>
        (\<exists>err. operation (callsMade (withRetry config operation calls operationId maxRetriesArg counts) - 1)
                 = Inl err
             \<and> e = AppErr (createError
                     (''Operation failed after '' @ showInt (retryLimit config maxRetriesArg)
                        @ '' retries: '' @ errorMessage err)
                     ''RETRY_EXHAUSTED'' HIGH API None (Some operationId) False)))"
proof (induction config operation calls operationId maxRetriesArg counts rule: withRetry.induct)
  case (1 config operation calls operationId maxRetriesArg counts)
  show ?case
  proof (cases "operation calls")
    case (Inr res)
    then show ?thesis by (subst (1 2 3) withRetry.simps) simp
  next
    case (Inl err)
    show ?thesis
    proof (cases "int (currentRetryCount counts operationId) < retryLimit config maxRetriesArg")
      case True
      let ?rest = "withRetry config operation (Suc calls) operationId maxRetriesArg
                     (counts(operationId \<mapsto> currentRetryCount counts operationId + 1))"
      have s: "settled (withRetry config operation calls operationId maxRetriesArg counts) = settled ?rest"
        using Inl True by (subst withRetry.simps) (simp add: Let_def)
      have c: "callsMade (withRetry config operation calls operationId maxRetriesArg counts) = callsMade ?rest"
        using Inl True by (subst withRetry.simps) (simp add: Let_def)
      show ?thesis
        unfolding s c by (rule "1.IH" [OF refl refl Inl True refl])
    next
      case False
      with Inl show ?thesis by (subst (1 2 3) withRetry.simps) simp
    qed
  qed
qed


text \<open>
  C2. Whatever the operation does and whatever the counters were, when \<open>withRetry\<close>
  settles (on a success or on exhaustion) the counter of its operation id is absent
  from the map (deleted, not set to 0) and the counters of other ids are untouched.
  A success is the result of the last call of the operation. A rejection is an
  \<open>AppError\<close> with code \<^verbatim>\<open>RETRY_EXHAUSTED\<close> whose message ends with the message of the
  last failure of the operation. A later call with the same id therefore starts from
  an absent counter: its back-off delays are \<open>retryDelay\<close>, \<open>2 * retryDelay\<close>,
  \<open>4 * retryDelay\<close>, ... from the base delay on.
\<close>

theorem retry_counter_deleted_on_completion:
  "counters (withRetry config operation calls operationId maxRetriesArg counts) operationId = None
   \<and> (other \<noteq> operationId \<longrightarrow>
        counters (withRetry config operation calls operationId maxRetriesArg counts) other
          = counts other)
   \<and> (settled (withRetry config operation calls operationId maxRetriesArg counts) = Inr res \<longrightarrow>
        operation (callsMade (withRetry config operation calls operationId maxRetriesArg counts) - 1)
          = Inr res)
   \<and> (settled (withRetry config operation calls operationId maxRetriesArg counts) = Inl e \<longrightarrow>
        (\<exists>err. operation (callsMade (withRetry config operation calls operationId maxRetriesArg counts) - 1)
                 = Inl err
             \<and> e = AppErr (createError
                     (''Operation failed after '' @ showInt (retryLimit config maxRetriesArg)
                        @ '' retries: '' @ errorMessage err)
                     ''RETRY_EXHAUSTED'' HIGH API None (Some operationId) False)))
   \<and> delays (withRetry config operation' calls' operationId maxRetriesArg'
               (counters (withRetry config operation calls operationId maxRetriesArg counts)))
       = map (\<lambda>k. retryDelay config * 2 ^ k)
           [0 ..< length (delays (withRetry config operation' calls' operationId maxRetriesArg'
               (counters (withRetry config operation calls operationId maxRetriesArg counts))))]"
proof -
  let ?out = "withRetry config operation calls operationId maxRetriesArg counts"
  have a: "counters ?out operationId = None" by (simp add: withRetry_counters)
  have b: "other \<noteq> operationId \<longrightarrow> counters ?out other = counts other"
    by (simp add: withRetry_counters)
  have c: "settled ?out = Inr res \<longrightarrow> operation (callsMade ?out - 1) = Inr res"
    using withRetry_settled [where config = config and operation = operation and calls = calls
            and operationId = operationId and maxRetriesArg = maxRetriesArg
            and counts = counts]
    by (auto split: sum.splits)
  have d: "settled ?out = Inl e \<longrightarrow>
        (\<exists>err. operation (callsMade ?out - 1) = Inl err
             \<and> e = AppErr (createError
                     (''Operation failed after '' @ showInt (retryLimit config maxRetriesArg)
                        @ '' retries: '' @ errorMessage err)
                     ''RETRY_EXHAUSTED'' HIGH API None (Some operationId) False))"
    using withRetry_settled [where config = config and operation = operation and calls = calls
            and operationId = operationId and maxRetriesArg = maxRetriesArg
            and counts = counts]
    by (auto split: sum.splits)
  have "currentRetryCount (counters ?out) operationId = 0"
    by (simp add: currentRetryCount_def a)
  then have e: "delays (withRetry config operation' calls' operationId maxRetriesArg' (counters ?out))
       = map (\<lambda>k. retryDelay config * 2 ^ k)
           [0 ..< length (delays (withRetry config operation' calls' operationId maxRetriesArg'
               (counters ?out)))]"
    using withRetry_delays [where config = config and operation = operation' and calls = calls'
            and operationId = operationId and maxRetriesArg = maxRetriesArg'
            and counts = "counters ?out"]
    by simp
  from a b c d e show ?thesis by blast
qed

lemma always_failing_exhausts:
  "withRetry errorServiceConfig (\<lambda>k. Inl (PlainError ''down'') :: thrown + nat) 0 ''op'' None
     (Map.empty(''op'' := None))
   = \<lparr>settled = Inl (AppErr \<lparr>message = ''Operation failed after 3 retries: down'',
                               code = ''RETRY_EXHAUSTED'', severity = HIGH, category = API,
                               component = ''unknown'', action = ''op'', recoverable = False\<rparr>),
      counters = Map.empty, delays = [1000, 2000, 4000], callsMade = 4\<rparr>"
  by (simp add: withRetry.simps errorServiceConfig_def retryLimit_def currentRetryCount_def
        createError_def showInt_def digitChar_def Let_def)

theorem retry_counter_deleted_on_completion_witness:
  "counters (withRetry errorServiceConfig
               (\<lambda>k. if k < 2 then Inl (PlainError ''boom'') else Inr (42::nat)) 0 ''op'' None Map.empty)
     ''op'' = None
   \<and> delays (withRetry errorServiceConfig (\<lambda>k. Inl (PlainError ''down'') :: thrown + nat) 0 ''op'' None
        (counters (withRetry errorServiceConfig
               (\<lambda>k. if k < 2 then Inl (PlainError ''boom'') else Inr (42::nat)) 0 ''op'' None Map.empty)))
      = [1000, 2000, 4000]
   \<and> settled (withRetry errorServiceConfig (\<lambda>k. Inl (PlainError ''down'') :: thrown + nat) 0 ''op'' None
        (counters (withRetry errorServiceConfig
               (\<lambda>k. if k < 2 then Inl (PlainError ''boom'') else Inr (42::nat)) 0 ''op'' None Map.empty)))
      = Inl (AppErr \<lparr>message = ''Operation failed after 3 retries: down'',
                     code = ''RETRY_EXHAUSTED'', severity = HIGH, category = API,
                     component = ''unknown'', action = ''op'', recoverable = False\<rparr>)"
proof -
  let ?first = "withRetry errorServiceConfig
               (\<lambda>k. if k < 2 then Inl (PlainError ''boom'') else Inr (42::nat)) 0 ''op'' None Map.empty"
  let ?down = "\<lambda>k. Inl (PlainError ''down'') :: thrown + nat"
  note t = retry_counter_deleted_on_completion
             [where config = errorServiceConfig
                and operation = "\<lambda>k. if k < 2 then Inl (PlainError ''boom'') else Inr (42::nat)"
                and calls = 0 and operationId = "''op''" and maxRetriesArg = None
                and counts = Map.empty and other = "''x''" and res = 42
                and e = "PlainError ''boom''" and operation' = ?down and calls' = 0
                and maxRetriesArg' = None]
  have c: "counters ?first = Map.empty(''op'' := None)" by (rule withRetry_counters)
  from t have a: "counters ?first ''op'' = None" by blast
  have n: "length (delays (withRetry errorServiceConfig ?down 0 ''op'' None (counters ?first))) = 3"
    by (simp only: c always_failing_exhausts) simp
  from t have "delays (withRetry errorServiceConfig ?down 0 ''op'' None (counters ?first))
       = map (\<lambda>k. retryDelay errorServiceConfig * 2 ^ k)
           [0 ..< length (delays (withRetry errorServiceConfig ?down 0 ''op'' None (counters ?first)))]"
    by blast
  then have b: "delays (withRetry errorServiceConfig ?down 0 ''op'' None (counters ?first))
       = [1000, 2000, 4000]"
    unfolding n by (simp add: errorServiceConfig_def upt_rec [of _ 3] numeral_3_eq_3)
  have s: "settled (withRetry errorServiceConfig ?down 0 ''op'' None (counters ?first))
      = Inl (AppErr \<lparr>message = ''Operation failed after 3 retries: down'',
                     code = ''RETRY_EXHAUSTED'', severity = HIGH, category = API,
                     component = ''unknown'', action = ''op'', recoverable = False\<rparr>)"
    by (simp only: c always_failing_exhausts) simp
  from a b s show ?thesis by blast
qed

section \<open>Theorems: BigQueryService\<close>

subsection \<open>The demo generator\<close>

lemma mathRound_mono: "x \<le> y \<Longrightarrow> mathRound x \<le> mathRound y"
  by (simp add: mathRound_def floor_mono)



lemma getTimeHorizon_cases: "getTimeHorizon tr = 12 \<or> getTimeHorizon tr = 60 \<or> getTimeHorizon tr = 120"
  by (simp add: getTimeHorizon_def)

lemma getTimeHorizon_gt1: "1 < getTimeHorizon tr"
  using getTimeHorizon_cases [of tr] by auto




lemma forecast_demo:
  "forecast (generateDemoForecast request nowMonth rnd)
     = map (\<lambda>i. demoPoint (getBaseValue (req_indicator request))
                    (getTrendMultiplier (req_indicator request)) nowMonth
                    (getTimeHorizon (timeRange request)) i (rnd i))
         [0 ..< getTimeHorizon (timeRange request)]"
  by (simp add: generateDemoForecast_def Let_def)

lemma length_demo:
  "length (forecast (generateDemoForecast request nowMonth rnd)) = getTimeHorizon (timeRange request)"
  by (simp add: forecast_demo)





lemma trendFromEnds_nth:
  "points \<noteq> [] \<Longrightarrow>
     trendFromEnds points
       = (if js_le (fvalue (points ! 0)) (fvalue (points ! (length points - 1)))
          then Increasing else Decreasing)"
  by (cases points) (simp_all add: trendFromEnds_def last_conv_nth)

lemma trend_demo:
  "trend (summary (generateDemoForecast request nowMonth rnd))
     = trendFromEnds (forecast (generateDemoForecast request nowMonth rnd))"
proof -
  let ?points = "forecast (generateDemoForecast request nowMonth rnd)"
  have len: "1 < length ?points"
    using getTimeHorizon_gt1 [of "timeRange request"] by (simp add: length_demo)
  then have ne: "?points \<noteq> []" by auto
  have "trend (summary (generateDemoForecast request nowMonth rnd))
          = (if length ?points > 1
                \<and> js_le (fvalue (?points ! 0)) (fvalue (?points ! (length ?points - 1)))
             then Increasing else Decreasing)"
    by (simp add: generateDemoForecast_def Let_def)
  with len show ?thesis by (simp add: trendFromEnds_nth [OF ne])
qed

subsection \<open>The formatter\<close>

lemma formatRows_length: "formatRows now rows = Inr points \<Longrightarrow> length points = length rows"
  by (induction rows arbitrary: points) (auto split: sum.splits)



lemma format_no_rows:
  "rowsOf res = [] \<Longrightarrow>
     formatForecastResult res request now nowMonth rnd = generateDemoForecast request nowMonth rnd"
  by (simp add: formatForecastResult_def)

lemma format_throws:
  "formatRows now (rowsOf res) = Inl err \<Longrightarrow>
     formatForecastResult res request now nowMonth rnd = generateDemoForecast request nowMonth rnd"
  by (simp add: formatForecastResult_def Let_def)

lemma format_rows:
  assumes "rowsOf res \<noteq> []" "formatRows now (rowsOf res) = Inr points"
  shows "formatForecastResult res request now nowMonth rnd
           = \<lparr>forecast = points,
              summary = \<lparr>trend = trendFromEnds points,
                         impact = getImpactMessage (req_indicator request) (req_region request),
                         recommendation = getRecommendation (req_indicator request),
                         accuracy_score = 0.88\<rparr>\<rparr>"
proof -
  from assms formatRows_length [OF assms(2)] have "points \<noteq> []" by auto
  then show ?thesis
    using assms by (simp add: formatForecastResult_def Let_def trendFromEnds_nth)
qed

lemma trend_format:
  "trend (summary (formatForecastResult res request now nowMonth rnd))
     = trendFromEnds (forecast (formatForecastResult res request now nowMonth rnd))"
proof (cases "rowsOf res = []")
  case True
  then show ?thesis by (simp add: format_no_rows trend_demo)
next
  case False
  show ?thesis
  proof (cases "formatRows now (rowsOf res)")
    case (Inl err)
    then show ?thesis by (simp add: format_throws trend_demo)
  next
    case (Inr points)
    show ?thesis by (simp add: format_rows [OF False Inr])
  qed
qed

subsection \<open>A backend that fails is absorbed\<close>

lemma withRetry_all_fail:
  assumes "\<forall>k. \<exists>err. operation k = Inl err"
  shows "\<exists>err. settled (withRetry config operation calls operationId maxRetriesArg counts) = Inl err"
proof (cases "settled (withRetry config operation calls operationId maxRetriesArg counts)")
  case (Inl err)
  then show ?thesis by blast
next
  case (Inr res)
  with withRetry_settled [where config = config and operation = operation and calls = calls
         and operationId = operationId and maxRetriesArg = maxRetriesArg and counts = counts]
  have "operation (callsMade (withRetry config operation calls operationId maxRetriesArg counts) - 1)
          = Inr res" by simp
  with assms show ?thesis by (metis sum.distinct(1))
qed

lemma forecastQuery_valid: "isValid (validate [''query'' \<mapsto> forecastQuery rendered horizon] queryRules)"
  by (simp add: validate_def queryRules_def forecastQuery_def Let_def)

lemma executeBigQueryAI_all_fail:
  assumes "\<forall>k. \<exists>err. remote k = Inl err"
  shows "\<exists>err. fst (executeBigQueryAI config remote (forecastQuery rendered horizon) st) = Inl err"
proof -
  obtain err where "settled (withRetry config remote 0
        (''bigquery-'' @ take 50 (forecastQuery rendered horizon)) None (retryCount st)) = Inl err"
    using withRetry_all_fail [OF assms] by blast
  then show ?thesis
    using forecastQuery_valid [of rendered horizon]
    by (simp add: executeBigQueryAI_def Let_def)
qed

lemma forecastTimeSeries_Inr:
  "\<exists>res. fst (forecastTimeSeries config env render rnd dat horizon st) = Inr res"
  by (auto simp: forecastTimeSeries_def Let_def split: option.splits prod.splits sum.splits list.splits)

lemma forecastTimeSeries_all_fail:
  assumes "\<forall>k. \<exists>err. remoteCall env k = Inl err"
    and "getCachedResult (queryCache st) (nowMs env) (take 5 dat, horizon) = None"
  shows "fst (forecastTimeSeries config env render rnd dat horizon st)
           = Inr (Intelligent (generateIntelligentForecast dat horizon (laterMs env) rnd))"
proof -
  obtain err where "fst (executeBigQueryAI config (remoteCall env)
                           (forecastQuery (render dat) horizon) st) = Inl err"
    using executeBigQueryAI_all_fail [OF assms(1)] by blast
  then show ?thesis
    using assms(2)
    by (cases "executeBigQueryAI config (remoteCall env) (forecastQuery (render dat) horizon) st")
       (simp add: forecastTimeSeries_def Let_def)
qed

lemma generateForecast_Inr:
  "\<exists>series. fst (generateForecast config env render request st) = Inr series
      \<and> ((\<exists>m r. series = generateDemoForecast request m r)
          \<or> (\<exists>res now m r. series = formatForecastResult res request now m r))"
proof (cases "mode request = Demo")
  case True
  then show ?thesis by (auto simp: generateForecast_def)
next
  case False
  let ?h = "getTimeHorizon (timeRange request)"
  let ?call = "forecastTimeSeries config env render (\<lambda>i. random env (?h + i))
                 (getHistoricalData request (currentMonth env) (random env)) ?h st"
  obtain r st1 where c: "?call = (r, st1)" by (cases ?call)
  show ?thesis
  proof (cases r)
    case (Inl err)
    with c False show ?thesis by (auto simp: generateForecast_def Let_def)
  next
    case (Inr fr)
    let ?rnd = "\<lambda>i. random env ((case fr of Intelligent f \<Rightarrow> 2 * ?h | _ \<Rightarrow> ?h) + i)"
    show ?thesis
    proof (cases "forecastFieldTruthy fr")
      case True
      with c False Inr
      have "fst (generateForecast config env render request st)
              = Inr (formatForecastResult fr request (laterMs env 1) (laterMonth env) ?rnd)"
        by (simp add: generateForecast_def Let_def)
      then show ?thesis by blast
    next
      case falsy: False
      with c False Inr
      have "fst (generateForecast config env render request st)
              = Inr (generateDemoForecast request (laterMonth env) ?rnd)"
        by (simp add: generateForecast_def Let_def)
      then show ?thesis by blast
    qed
  qed
qed

lemma generateForecast_all_fail:
  assumes "mode request = Bigquery" "\<forall>k. \<exists>err. remoteCall env k = Inl err"
    and "queryCache st = Map.empty"
  shows "fst (generateForecast config env render request st)
           = Inr (generateDemoForecast request (laterMonth env)
                    (\<lambda>i. random env (2 * getTimeHorizon (timeRange request) + i)))"
proof -
  let ?h = "getTimeHorizon (timeRange request)"
  let ?dat = "getHistoricalData request (currentMonth env) (random env)"
  let ?rnd = "\<lambda>i. random env (?h + i)"
  have miss: "getCachedResult (queryCache st) (nowMs env) (take 5 ?dat, ?h) = None"
    using assms(3) by (simp add: getCachedResult_def)
  have "fst (forecastTimeSeries config env render ?rnd ?dat ?h st)
          = Inr (Intelligent (generateIntelligentForecast ?dat ?h (laterMs env) ?rnd))"
    by (rule forecastTimeSeries_all_fail [OF assms(2) miss])
  then show ?thesis
    using assms(1)
    by (cases "forecastTimeSeries config env render ?rnd ?dat ?h st")
       (simp add: generateForecast_def Let_def format_no_rows)
qed

subsection \<open>The intelligent fallback, the mock forecast of the dashboard, and labels\<close>




lemma mock_gdp_trend:
  "trend (summary (mockForecast ''gdp'' currentYear rnd)) = Decreasing
   \<and> trendFromEnds (forecast (mockForecast ''gdp'' currentYear rnd)) = Increasing"
proof -
  let ?f = "\<lambda>i. (let v = mockValue ''gdp'' i (rnd i)
               in \<lparr>ts = MonthStart (12 * (currentYear - 10 + int (i div 12)) + int (i mod 12)),
                   fvalue = Some (mathRound (v * 100) / 100),
                   confidence_low = Some (mathRound ((v * 0.9) * 100) / 100),
                   confidence_high = Some (mathRound ((v * 1.1) * 100) / 100)\<rparr>)"
  let ?points = "forecast (mockForecast ''gdp'' currentYear rnd)"
  have points: "?points = map ?f [0 ..< 120]"
    by (simp add: mockForecast_def generateMockForecast_def)
  have ne: "?points \<noteq> []" by (simp add: points)
  have len: "length ?points = 120" by (simp add: points)
  have first: "fvalue (?points ! 0) = Some (mathRound (mockValue ''gdp'' 0 (rnd 0) * 100) / 100)"
    unfolding points by (simp add: Let_def)
  have lst: "fvalue (?points ! 119) = Some (mathRound (mockValue ''gdp'' 119 (rnd 119) * 100) / 100)"
    unfolding points by (simp add: Let_def)
  have v0: "mockValue ''gdp'' 0 (rnd 0) = 50000" by (simp add: mockValue_def)
  have "0 \<le> 11900 + sin (119 / 50 :: real) * 5000"
    using sin_ge_minus_one [of "119 / 50 :: real"] by linarith
  then have v119: "50000 \<le> mockValue ''gdp'' 119 (rnd 119)" by (simp add: mockValue_def)
  have "mathRound (mockValue ''gdp'' 0 (rnd 0) * 100) \<le> mathRound (mockValue ''gdp'' 119 (rnd 119) * 100)"
    using v119 by (intro mathRound_mono) (simp add: v0)
  then have "js_le (fvalue (?points ! 0)) (fvalue (?points ! 119))"
    by (simp add: first lst js_le_def divide_right_mono)
  then have "trendFromEnds ?points = Increasing"
    by (simp add: trendFromEnds_nth [OF ne] len)
  moreover have "trend (summary (mockForecast ''gdp'' currentYear rnd)) = Decreasing"
    by (simp add: mockForecast_def)
  ultimately show ?thesis by simp
qed

lemma valid_climate_request:
  "isValid (validateClimateData (climateFields
      \<lparr>req_indicator = ''gdp'', req_region = ''United States'', timeRange = ''10y'', mode = Demo\<rparr>))"
  by (simp add: validateClimateData_def validate_def climateRules_def climateFields_def Let_def)

lemma invalid_climate_request:
  "\<not> isValid (validateClimateData (climateFields
      \<lparr>req_indicator = ''gdp'', req_region = ''X'', timeRange = ''10y'', mode = Demo\<rparr>))"
  by (simp add: validateClimateData_def validate_def climateRules_def climateFields_def Let_def)





subsection \<open>The claims about forecasts\<close>

text \<open>
  C1. For every request (any indicator, region, time range and mode), every state of
  the service and every behaviour of the backend, random source and clock,
  \<open>generateForecast\<close> resolves with a forecast series and never rejects. The series
  is a demo forecast or a formatted answer of the backend. When every remote call
  throws (and nothing is cached), the retries are exhausted inside
  \<open>executeBigQueryAI\<close>, the failure is absorbed by \<open>forecastTimeSeries\<close>, and the
  series returned is the demo forecast. So no failure is visible to the caller of
  \<open>generateForecast\<close> at all; the validation of the request, the one typed failure
  of the core, happens in the caller before \<open>generateForecast\<close> is invoked.
\<close>

theorem generateForecast_always_resolves:
  "(\<exists>series. fst (generateForecast config env render request st) = Inr series
       \<and> ((\<exists>m r. series = generateDemoForecast request m r)
           \<or> (\<exists>res now m r. series = formatForecastResult res request now m r)))
   \<and> (\<forall>err. fst (generateForecast config env render request st) \<noteq> Inl err)
   \<and> (mode request = Bigquery \<and> (\<forall>k. \<exists>err. remoteCall env k = Inl err)
        \<and> queryCache st = Map.empty \<longrightarrow>
        fst (generateForecast config env render request st)
          = Inr (generateDemoForecast request (laterMonth env)
                   (\<lambda>i. random env (2 * getTimeHorizon (timeRange request) + i))))"
proof -
  have a: "\<exists>series. fst (generateForecast config env render request st) = Inr series
       \<and> ((\<exists>m r. series = generateDemoForecast request m r)
           \<or> (\<exists>res now m r. series = formatForecastResult res request now m r))"
    by (rule generateForecast_Inr)
  then have b: "\<forall>err. fst (generateForecast config env render request st) \<noteq> Inl err"
    by auto
  have c: "mode request = Bigquery \<and> (\<forall>k. \<exists>err. remoteCall env k = Inl err)
        \<and> queryCache st = Map.empty \<longrightarrow>
        fst (generateForecast config env render request st)
          = Inr (generateDemoForecast request (laterMonth env)
                   (\<lambda>i. random env (2 * getTimeHorizon (timeRange request) + i)))"
    using generateForecast_all_fail [of request env st config render] by blast
  from a b c show ?thesis by blast
qed

theorem generateForecast_always_resolves_witness:
  "fst (generateForecast errorServiceConfig
          \<lparr>currentMonth = 24322, laterMonth = 24322, nowMs = 0, laterMs = (\<lambda>k. int k),
           random = (\<lambda>i. 1 / 2), remoteCall = (\<lambda>k. Inl (PlainError ''network down''))\<rparr>
          (\<lambda>d. [])
          \<lparr>req_indicator = ''co2'', req_region = ''Germany'', timeRange = ''5y'', mode = Bigquery\<rparr>
          \<lparr>queryCache = Map.empty, retryCount = Map.empty, errorLog = []\<rparr>)
   = Inr (generateDemoForecast
            \<lparr>req_indicator = ''co2'', req_region = ''Germany'', timeRange = ''5y'', mode = Bigquery\<rparr>
            24322 (\<lambda>i. 1 / 2))"
  using generateForecast_always_resolves
          [where config = errorServiceConfig
             and env = "\<lparr>currentMonth = 24322, laterMonth = 24322, nowMs = 0, laterMs = (\<lambda>k. int k),
                          random = (\<lambda>i. 1 / 2),
                          remoteCall = (\<lambda>k. Inl (PlainError ''network down''))\<rparr>"
             and render = "\<lambda>d. []"
             and request = "\<lparr>req_indicator = ''co2'', req_region = ''Germany'', timeRange = ''5y'',
                              mode = Bigquery\<rparr>"
             and st = "\<lparr>queryCache = Map.empty, retryCount = Map.empty, errorLog = []\<rparr>"]
  by simp





text \<open>
  C4. The demo generator and the formatter read the trend off the first and the last
  value of the series they return (increasing when the last value is at least the
  first, decreasing otherwise), and so does every series \<open>generateForecast\<close> resolves
  with. The fallback of the dashboard does not: it labels every indicator other than
  \<^verbatim>\<open>co2\<close> as decreasing, whatever the points are. For \<^verbatim>\<open>gdp\<close> its mock series rises
  from 50000 to more than 56900 and is labelled decreasing. The fallback is what the
  dashboard shows when the import of the services fails or when the validation of
  the parameters fails.
\<close>

theorem trend_from_points_except_dashboard_fallback:
  "trend (summary (generateDemoForecast request nowMonth rnd))
     = trendFromEnds (forecast (generateDemoForecast request nowMonth rnd))
   \<and> trend (summary (formatForecastResult res request now nowMonth rnd))
     = trendFromEnds (forecast (formatForecastResult res request now nowMonth rnd))
   \<and> (\<exists>series. fst (generateForecast config env render request st) = Inr series
         \<and> trend (summary series) = trendFromEnds (forecast series))
   \<and> trend (summary (mockForecast ''gdp'' currentYear rnd)) = Decreasing
   \<and> trendFromEnds (forecast (mockForecast ''gdp'' currentYear rnd)) = Increasing
   \<and> fst (fetchClimateData config env render (Some msg) currentYear
            \<lparr>req_indicator = ''gdp'', req_region = ''United States'', timeRange = ''10y'', mode = Demo\<rparr>
            st)
     = Some (mockForecast ''gdp'' currentYear (random env))
   \<and> fst (fetchClimateData config env render None currentYear
            \<lparr>req_indicator = ''gdp'', req_region = ''X'', timeRange = ''10y'', mode = Demo\<rparr> st)
     = Some (mockForecast ''gdp'' currentYear (random env))"
proof -
  have a: "trend (summary (generateDemoForecast request nowMonth rnd))
     = trendFromEnds (forecast (generateDemoForecast request nowMonth rnd))"
    by (rule trend_demo)
  have b: "trend (summary (formatForecastResult res request now nowMonth rnd))
     = trendFromEnds (forecast (formatForecastResult res request now nowMonth rnd))"
    by (rule trend_format)
  have c: "\<exists>series. fst (generateForecast config env render request st) = Inr series
         \<and> trend (summary series) = trendFromEnds (forecast series)"
    using generateForecast_Inr [of config env render request st] trend_demo trend_format
    by metis
  have d: "trend (summary (mockForecast ''gdp'' currentYear rnd)) = Decreasing
   \<and> trendFromEnds (forecast (mockForecast ''gdp'' currentYear rnd)) = Increasing"
    by (rule mock_gdp_trend)
  have e: "fst (fetchClimateData config env render (Some msg) currentYear
            \<lparr>req_indicator = ''gdp'', req_region = ''United States'', timeRange = ''10y'', mode = Demo\<rparr>
            st)
     = Some (mockForecast ''gdp'' currentYear (random env))"
    using valid_climate_request by (simp add: fetchClimateData_def)
  have f: "fst (fetchClimateData config env render None currentYear
            \<lparr>req_indicator = ''gdp'', req_region = ''X'', timeRange = ''10y'', mode = Demo\<rparr> st)
     = Some (mockForecast ''gdp'' currentYear (random env))"
    using invalid_climate_request by (simp add: fetchClimateData_def)
  from a b c d e f show ?thesis by blast
qed

theorem trend_from_points_except_dashboard_fallback_witness:
  "trend (summary (mockForecast ''gdp'' 2026 (\<lambda>i. 1 / 2))) = Decreasing
   \<and> trendFromEnds (forecast (mockForecast ''gdp'' 2026 (\<lambda>i. 1 / 2))) = Increasing
   \<and> fst (fetchClimateData errorServiceConfig
            \<lparr>currentMonth = 24322, laterMonth = 24322, nowMs = 0, laterMs = (\<lambda>k. int k),
             random = (\<lambda>i. 1 / 2), remoteCall = simulatedBackend\<rparr>
            (\<lambda>d. []) None 2026
            \<lparr>req_indicator = ''gdp'', req_region = ''X'', timeRange = ''10y'', mode = Demo\<rparr>
            \<lparr>queryCache = Map.empty, retryCount = Map.empty, errorLog = []\<rparr>)
     = Some (mockForecast ''gdp'' 2026 (\<lambda>i. 1 / 2))"
  using trend_from_points_except_dashboard_fallback
          [where currentYear = 2026 and rnd = "\<lambda>i. 1 / 2" and config = errorServiceConfig
             and env = "\<lparr>currentMonth = 24322, laterMonth = 24322, nowMs = 0, laterMs = (\<lambda>k. int k),
                          random = (\<lambda>i. 1 / 2), remoteCall = simulatedBackend\<rparr>"
             and render = "\<lambda>d. []"
             and st = "\<lparr>queryCache = Map.empty, retryCount = Map.empty, errorLog = []\<rparr>"
             and request = "\<lparr>req_indicator = ''gdp'', req_region = ''X'', timeRange = ''10y'', mode = Demo\<rparr>"
             and res = EmptyDefault and now = 0 and nowMonth = 24322 and msg = "''x''"]
  by simp




section \<open>The result cache of the similarity search\<close>






end
